theory Spec2Isabelle
  imports Complex_Main "HOL-Library.Product_Lexorder" "HOL-Library.AList"
    "HOL-Library.Multiset" "HOL-Library.Word"
begin

section \<open>Persistence store: saved states and saved parking layouts\<close>

text \<open>
  The first module of \<^verbatim>\<open>db.js\<close> keeps the object stores \<^verbatim>\<open>savedStates\<close> and
  \<^verbatim>\<open>savedParking\<close>, both created with \<^verbatim>\<open>{ keyPath: 'id', autoIncrement: true }\<close> and an
  index on \<^verbatim>\<open>timestamp\<close>. A stored item is the object built by \<^verbatim>\<open>saveState\<close> /
  \<^verbatim>\<open>saveParking\<close>: its name, its payload (\<^verbatim>\<open>state\<close> or \<^verbatim>\<open>parking\<close>), the reading of
  \<^verbatim>\<open>Date.now()\<close> and the primary key the store's key generator assigned.
\<close>

record 'a saved =
  sid :: nat
  sname :: string
  payload :: 'a
  timestamp :: int

text \<open>
  An object store: its records in primary-key order (the order of \<^verbatim>\<open>store.getAll()\<close>)
  and the current number of its key generator.
\<close>

record 'a objstore =
  records :: "'a saved list"
  keygen :: nat

definition empty_store :: "'a objstore" where
  "empty_store = \<lparr>records = [], keygen = 1\<rparr>"

text \<open>Primary keys are unique and were all issued by the key generator.\<close>

definition store_wf :: "'a objstore \<Rightarrow> bool" where
  "store_wf st \<longleftrightarrow>
     distinct (map sid (records st)) \<and> list_all (\<lambda>r. sid r < keygen st) (records st)"

text \<open>
  \<^verbatim>\<open>add(storeName, item)\<close>: one \<^verbatim>\<open>readwrite\<close> transaction running \<^verbatim>\<open>store.add(item)\<close>.
  The item carries no \<^verbatim>\<open>id\<close>, so the key generator supplies it and advances.
\<close>

definition add :: "'a objstore \<Rightarrow> string \<Rightarrow> 'a \<Rightarrow> int \<Rightarrow> 'a objstore" where
  "add st name p now =
     \<lparr>records = records st @ [\<lparr>sid = keygen st, sname = name, payload = p, timestamp = now\<rparr>],
      keygen = keygen st + 1\<rparr>"

text \<open>\<^verbatim>\<open>store.delete(key)\<close>.\<close>

definition delete :: "'a objstore \<Rightarrow> nat \<Rightarrow> 'a objstore" where
  "delete st k = st\<lparr>records := filter (\<lambda>r. sid r \<noteq> k) (records st)\<rparr>"

text \<open>
  \<^verbatim>\<open>index.openCursor(null, 'prev')\<close> on the \<^verbatim>\<open>timestamp\<close> index: the records in
  descending order of the index key, records with the same timestamp in descending order of
  their primary key.
\<close>

definition cursor_prev :: "'a objstore \<Rightarrow> 'a saved list" where
  "cursor_prev st = rev (sort_key (\<lambda>r. (timestamp r, sid r)) (records st))"

text \<open>
  The cursor loop of the trimming transaction:
  \<^verbatim>\<open>count++; if (count > limit) store.delete(cursor.primaryKey); cursor.continue();\<close>
  (\<open>cnt\<close> is the counter \<^verbatim>\<open>count\<close>).
  The cursor only ever deletes the record it stands on, so the records still to be visited
  are those the cursor listed when it was opened.
\<close>

fun trim_loop :: "nat \<Rightarrow> nat \<Rightarrow> 'a saved list \<Rightarrow> 'a objstore \<Rightarrow> 'a objstore" where
  "trim_loop limit cnt [] st = st"
| "trim_loop limit cnt (c # cs) st =
     (let cnt' = cnt + 1;
          st' = (if cnt' > limit then delete st (sid c) else st)
      in trim_loop limit cnt' cs st')"

definition trim :: "nat \<Rightarrow> 'a objstore \<Rightarrow> 'a objstore" where
  "trim limit st = trim_loop limit 0 (cursor_prev st) st"

text \<open>
  \<^verbatim>\<open>saveState(state, name, limit = 5)\<close> and \<^verbatim>\<open>saveParking(parkingData, name, limit = 20)\<close>:
  the \<^verbatim>\<open>add\<close> transaction is awaited, then a second transaction trims. The limit is a
  count of items; \<open>None\<close> is the omitted argument.
\<close>

definition saveState :: "'a \<Rightarrow> string \<Rightarrow> nat option \<Rightarrow> int \<Rightarrow> 'a objstore \<Rightarrow> 'a objstore" where
  "saveState state name limit now st =
     (let l = (case limit of None \<Rightarrow> 5 | Some n \<Rightarrow> n);
          st1 = add st name state now
      in trim l st1)"

definition saveParking :: "'a \<Rightarrow> string \<Rightarrow> nat option \<Rightarrow> int \<Rightarrow> 'a objstore \<Rightarrow> 'a objstore" where
  "saveParking parkingData name limit now st =
     (let l = (case limit of None \<Rightarrow> 20 | Some n \<Rightarrow> n);
          st1 = add st name parkingData now
      in trim l st1)"

text \<open>
  The storage transactions one call of \<^verbatim>\<open>saveState\<close> or \<^verbatim>\<open>saveParking\<close> runs, in order:
  the transaction \<^verbatim>\<open>add\<close> opens through \<^verbatim>\<open>performTransaction\<close>, and the one the function
  opens itself with \<^verbatim>\<open>db.transaction(\<dots>, 'readwrite')\<close> for the cursor loop. \<open>commits\<close>
  lists the states of the store that readers can see, one after each commit.
\<close>

definition saveState_transactions ::
  "'a \<Rightarrow> string \<Rightarrow> nat option \<Rightarrow> int \<Rightarrow> ('a objstore \<Rightarrow> 'a objstore) list" where
  "saveState_transactions state name limit now =
     [\<lambda>st. add st name state now,
      trim (case limit of None \<Rightarrow> 5 | Some n \<Rightarrow> n)]"

definition saveParking_transactions ::
  "'a \<Rightarrow> string \<Rightarrow> nat option \<Rightarrow> int \<Rightarrow> ('a objstore \<Rightarrow> 'a objstore) list" where
  "saveParking_transactions parkingData name limit now =
     [\<lambda>st. add st name parkingData now,
      trim (case limit of None \<Rightarrow> 20 | Some n \<Rightarrow> n)]"

fun commits :: "('st \<Rightarrow> 'st) list \<Rightarrow> 'st \<Rightarrow> 'st list" where
  "commits [] st = []"
| "commits (t # ts) st = t st # commits ts (t st)"

text \<open>
  The database of the seating tool, as far as saving goes, and a save request: which of the
  two functions is called, with its arguments and the clock reading it takes.
\<close>

record ('s, 'p) db =
  savedStates :: "'s objstore"
  savedParking :: "'p objstore"

datatype ('s, 'p) save_op =
    SaveState 's string "nat option" int
  | SaveParking 'p string "nat option" int

fun apply_save :: "('s, 'p) db \<Rightarrow> ('s, 'p) save_op \<Rightarrow> ('s, 'p) db" where
  "apply_save d (SaveState state name limit now) =
     d\<lparr>savedStates := saveState state name limit now (savedStates d)\<rparr>"
| "apply_save d (SaveParking parkingData name limit now) =
     d\<lparr>savedParking := saveParking parkingData name limit now (savedParking d)\<rparr>"

definition run_saves :: "('s, 'p) db \<Rightarrow> ('s, 'p) save_op list \<Rightarrow> ('s, 'p) db" where
  "run_saves d reqs = foldl apply_save d reqs"


subsection \<open>Properties of the store, as predicates\<close>

text \<open>
  \<open>kept_most_recent L cand kept\<close>: of the candidates \<open>cand\<close>, \<open>kept\<close> are the \<open>L\<close>
  most recent by timestamp (all of them when there are fewer than \<open>L\<close>): the right number
  of them, all candidates, and no candidate that was dropped is younger than one that was kept.
\<close>

definition kept_most_recent :: "nat \<Rightarrow> 'a saved list \<Rightarrow> 'a saved list \<Rightarrow> bool" where
  "kept_most_recent L cand kept \<longleftrightarrow>
     length kept = min L (length cand) \<and>
     list_all (\<lambda>x. x \<in> set cand) kept \<and>
     list_all (\<lambda>x. list_all (\<lambda>y. y \<in> set kept \<or> timestamp y \<le> timestamp x) cand) kept"

definition db_wf :: "('s, 'p) db \<Rightarrow> bool" where
  "db_wf d \<longleftrightarrow> store_wf (savedStates d) \<and> store_wf (savedParking d)"

text \<open>
  \<open>saved_into L pre name p now post\<close>: what a completed save with limit \<open>L\<close> leaves in
  \<open>post\<close>, told from the collection \<open>pre\<close> before it and the item saved, which gets the
  next primary key. The collection holds at most \<open>L\<close> items; they are the \<open>L\<close> most
  recent of the old items together with the new one; and the new item is among them when the
  limit is positive and no old item is younger.
\<close>

definition saved_into ::
  "nat \<Rightarrow> 'a objstore \<Rightarrow> string \<Rightarrow> 'a \<Rightarrow> int \<Rightarrow> 'a objstore \<Rightarrow> bool" where
  "saved_into L pre name p now post \<longleftrightarrow>
     length (records post) \<le> L \<and>
     kept_most_recent L
       (records pre @ [\<lparr>sid = keygen pre, sname = name, payload = p, timestamp = now\<rparr>])
       (records post) \<and>
     (0 < L \<and> list_all (\<lambda>r. timestamp r \<le> now) (records pre) \<longrightarrow>
        \<lparr>sid = keygen pre, sname = name, payload = p, timestamp = now\<rparr> \<in> set (records post))"

fun save_post :: "('s, 'p) db \<Rightarrow> ('s, 'p) save_op \<Rightarrow> ('s, 'p) db \<Rightarrow> bool" where
  "save_post pre (SaveState state name limit now) post =
     saved_into (case limit of None \<Rightarrow> 5 | Some n \<Rightarrow> n)
       (savedStates pre) name state now (savedStates post)"
| "save_post pre (SaveParking parkingData name limit now) post =
     saved_into (case limit of None \<Rightarrow> 20 | Some n \<Rightarrow> n)
       (savedParking pre) name parkingData now (savedParking post)"

section \<open>Game-log rows\<close>

text \<open>
  A JavaScript number is modelled as a rational, a string as its UTF-8 bytes. A row of a
  parsed CSV file is an object from column names to cells; a cell is a number or a string.
\<close>

datatype cell = Num rat | Str string

type_synonym row = "string \<Rightarrow> cell option"

text \<open>The column names the dashboard reads: their meaning, their code points, their bytes.\<close>

definition col_playerId :: string where \<comment> \<open>player ID: U+9078 U+624B U+0049 U+0044\<close>
  "col_playerId =
     [CHR 0xE9, CHR 0x81, CHR 0xB8, CHR 0xE6, CHR 0x89, CHR 0x8B,
      CHR 0x49, CHR 0x44]"

definition col_name :: string where \<comment> \<open>name: U+540D U+524D\<close>
  "col_name =
     [CHR 0xE5, CHR 0x90, CHR 0x8D, CHR 0xE5, CHR 0x89, CHR 0x8D]"

definition col_date :: string where \<comment> \<open>date: U+65E5 U+4ED8\<close>
  "col_date =
     [CHR 0xE6, CHR 0x97, CHR 0xA5, CHR 0xE4, CHR 0xBB, CHR 0x98]"

definition col_gameId :: string where \<comment> \<open>game ID: U+8A66 U+5408 U+0049 U+0044\<close>
  "col_gameId =
     [CHR 0xE8, CHR 0xA9, CHR 0xA6, CHR 0xE5, CHR 0x90, CHR 0x88,
      CHR 0x49, CHR 0x44]"

definition col_score :: string where \<comment> \<open>score: U+30B9 U+30B3 U+30A2\<close>
  "col_score =
     [CHR 0xE3, CHR 0x82, CHR 0xB9, CHR 0xE3, CHR 0x82, CHR 0xB3,
      CHR 0xE3, CHR 0x82, CHR 0xA2]"

definition col_category :: string where \<comment> \<open>category: U+30AB U+30C6 U+30B4 U+30EA\<close>
  "col_category =
     [CHR 0xE3, CHR 0x82, CHR 0xAB, CHR 0xE3, CHR 0x83, CHR 0x86,
      CHR 0xE3, CHR 0x82, CHR 0xB4, CHR 0xE3, CHR 0x83, CHR 0xAA]"

definition col_venue :: string where \<comment> \<open>venue: U+7403 U+5834\<close>
  "col_venue =
     [CHR 0xE7, CHR 0x90, CHR 0x83, CHR 0xE5, CHR 0xA0, CHR 0xB4]"

definition col_title :: string where \<comment> \<open>title: U+30BF U+30A4 U+30C8 U+30EB\<close>
  "col_title =
     [CHR 0xE3, CHR 0x82, CHR 0xBF, CHR 0xE3, CHR 0x82, CHR 0xA4,
      CHR 0xE3, CHR 0x83, CHR 0x88, CHR 0xE3, CHR 0x83, CHR 0xAB]"

definition col_number :: string where \<comment> \<open>jersey number: U+80CC U+756A U+53F7\<close>
  "col_number =
     [CHR 0xE8, CHR 0x83, CHR 0x8C, CHR 0xE7, CHR 0x95, CHR 0xAA,
      CHR 0xE5, CHR 0x8F, CHR 0xB7]"

definition col_away :: string where \<comment> \<open>away team (batting first): U+5148 U+653B\<close>
  "col_away =
     [CHR 0xE5, CHR 0x85, CHR 0x88, CHR 0xE6, CHR 0x94, CHR 0xBB]"

definition col_home :: string where \<comment> \<open>home team (batting second): U+5F8C U+653B\<close>
  "col_home =
     [CHR 0xE5, CHR 0xBE, CHR 0x8C, CHR 0xE6, CHR 0x94, CHR 0xBB]"

definition col_pa :: string where \<comment> \<open>plate appearances: U+6253 U+5E2D U+6570\<close>
  "col_pa =
     [CHR 0xE6, CHR 0x89, CHR 0x93, CHR 0xE5, CHR 0xB8, CHR 0xAD,
      CHR 0xE6, CHR 0x95, CHR 0xB0]"

definition col_ab :: string where \<comment> \<open>at-bats: U+6253 U+6570\<close>
  "col_ab =
     [CHR 0xE6, CHR 0x89, CHR 0x93, CHR 0xE6, CHR 0x95, CHR 0xB0]"

definition col_hits :: string where \<comment> \<open>hits: U+5B89 U+6253\<close>
  "col_hits =
     [CHR 0xE5, CHR 0xAE, CHR 0x89, CHR 0xE6, CHR 0x89, CHR 0x93]"

definition col_doubles :: string where \<comment> \<open>doubles: U+4E8C U+5841 U+6253\<close>
  "col_doubles =
     [CHR 0xE4, CHR 0xBA, CHR 0x8C, CHR 0xE5, CHR 0xA1, CHR 0x81,
      CHR 0xE6, CHR 0x89, CHR 0x93]"

definition col_triples :: string where \<comment> \<open>triples: U+4E09 U+5841 U+6253\<close>
  "col_triples =
     [CHR 0xE4, CHR 0xB8, CHR 0x89, CHR 0xE5, CHR 0xA1, CHR 0x81,
      CHR 0xE6, CHR 0x89, CHR 0x93]"

definition col_hr :: string where \<comment> \<open>home runs: U+672C U+5841 U+6253\<close>
  "col_hr =
     [CHR 0xE6, CHR 0x9C, CHR 0xAC, CHR 0xE5, CHR 0xA1, CHR 0x81,
      CHR 0xE6, CHR 0x89, CHR 0x93]"

definition col_rbi :: string where \<comment> \<open>runs batted in: U+6253 U+70B9\<close>
  "col_rbi =
     [CHR 0xE6, CHR 0x89, CHR 0x93, CHR 0xE7, CHR 0x82, CHR 0xB9]"

definition col_runs :: string where \<comment> \<open>runs: U+5F97 U+70B9\<close>
  "col_runs =
     [CHR 0xE5, CHR 0xBE, CHR 0x97, CHR 0xE7, CHR 0x82, CHR 0xB9]"

definition col_so :: string where \<comment> \<open>strikeouts: U+4E09 U+632F\<close>
  "col_so =
     [CHR 0xE4, CHR 0xB8, CHR 0x89, CHR 0xE6, CHR 0x8C, CHR 0xAF]"

definition col_bb :: string where \<comment> \<open>walks: U+56DB U+7403\<close>
  "col_bb =
     [CHR 0xE5, CHR 0x9B, CHR 0x9B, CHR 0xE7, CHR 0x90, CHR 0x83]"

definition col_hbp :: string where \<comment> \<open>hit by pitch: U+6B7B U+7403\<close>
  "col_hbp =
     [CHR 0xE6, CHR 0xAD, CHR 0xBB, CHR 0xE7, CHR 0x90, CHR 0x83]"

definition col_sb :: string where \<comment> \<open>stolen bases: U+76D7 U+5841\<close>
  "col_sb =
     [CHR 0xE7, CHR 0x9B, CHR 0x97, CHR 0xE5, CHR 0xA1, CHR 0x81]"

definition col_sf :: string where \<comment> \<open>sacrifice flies: U+72A0 U+98DB\<close>
  "col_sf =
     [CHR 0xE7, CHR 0x8A, CHR 0xA0, CHR 0xE9, CHR 0xA3, CHR 0x9B]"

definition col_sac :: string where \<comment> \<open>sacrifice bunts: U+72A0 U+6253\<close>
  "col_sac =
     [CHR 0xE7, CHR 0x8A, CHR 0xA0, CHR 0xE6, CHR 0x89, CHR 0x93]"

definition col_outs :: string where \<comment> \<open>outs recorded: U+30A2 U+30A6 U+30C8 U+6570\<close>
  "col_outs =
     [CHR 0xE3, CHR 0x82, CHR 0xA2, CHR 0xE3, CHR 0x82, CHR 0xA6,
      CHR 0xE3, CHR 0x83, CHR 0x88, CHR 0xE6, CHR 0x95, CHR 0xB0]"

definition col_runsAllowed :: string where \<comment> \<open>runs allowed: U+5931 U+70B9\<close>
  "col_runsAllowed =
     [CHR 0xE5, CHR 0xA4, CHR 0xB1, CHR 0xE7, CHR 0x82, CHR 0xB9]"

definition col_er :: string where \<comment> \<open>earned runs: U+81EA U+8CAC U+70B9\<close>
  "col_er =
     [CHR 0xE8, CHR 0x87, CHR 0xAA, CHR 0xE8, CHR 0xB2, CHR 0xAC,
      CHR 0xE7, CHR 0x82, CHR 0xB9]"

definition col_win :: string where \<comment> \<open>wins: U+52DD U+6570\<close>
  "col_win =
     [CHR 0xE5, CHR 0x8B, CHR 0x9D, CHR 0xE6, CHR 0x95, CHR 0xB0]"

definition col_loss :: string where \<comment> \<open>losses: U+8CA0 U+6570\<close>
  "col_loss =
     [CHR 0xE8, CHR 0xB2, CHR 0xA0, CHR 0xE6, CHR 0x95, CHR 0xB0]"

definition col_sv :: string where \<comment> \<open>saves: U+30BB U+30FC U+30D6\<close>
  "col_sv =
     [CHR 0xE3, CHR 0x82, CHR 0xBB, CHR 0xE3, CHR 0x83, CHR 0xBC,
      CHR 0xE3, CHR 0x83, CHR 0x96]"

definition col_innings :: string where \<comment> \<open>innings pitched: U+6295 U+7403 U+56DE\<close>
  "col_innings =
     [CHR 0xE6, CHR 0x8A, CHR 0x95, CHR 0xE7, CHR 0x90, CHR 0x83,
      CHR 0xE5, CHR 0x9B, CHR 0x9E]"

definition col_pitches :: string where \<comment> \<open>pitch count: U+7403 U+6570\<close>
  "col_pitches =
     [CHR 0xE7, CHR 0x90, CHR 0x83, CHR 0xE6, CHR 0x95, CHR 0xB0]"

text \<open>
  \<^verbatim>\<open>(row[k] || 0)\<close> in a sum of counts: an absent column, an empty cell and the number 0
  all give 0. The counting columns of a game log hold numbers or are empty; text in a
  counting column is outside this model.
\<close>

definition or0 :: "cell option \<Rightarrow> rat" where
  "or0 v = (case v of Some (Num n) \<Rightarrow> n | _ \<Rightarrow> 0)"

text \<open>
  \<^verbatim>\<open>row['\<dots>ID'] || row['\<dots>']\<close> on two identifier columns, whose cells \<^verbatim>\<open>parseCSV\<close> never
  converts to numbers: the first string that is present and not empty. The result is used
  as a property name, where \<^verbatim>\<open>undefined\<close> becomes the string \<^verbatim>\<open>"undefined"\<close>.
\<close>

definition truthy :: "cell option \<Rightarrow> bool" where
  "truthy v = (case v of None \<Rightarrow> False | Some (Num n) \<Rightarrow> n \<noteq> 0 | Some (Str s) \<Rightarrow> s \<noteq> [])"

definition js_or :: "cell option \<Rightarrow> cell option \<Rightarrow> cell option" where
  "js_or a b = (if truthy a then a else b)"

definition property_key :: "cell option \<Rightarrow> string" where
  "property_key v = (case v of Some (Str s) \<Rightarrow> s | _ \<Rightarrow> ''undefined'')"

definition player_key :: "row \<Rightarrow> string" where
  "player_key r = property_key (js_or (r col_playerId) (r col_name))"

text \<open>\<^verbatim>\<open>const safeDiv = (a, b) => b === 0 ? 0 : a / b;\<close>\<close>

definition safeDiv :: "rat \<Rightarrow> rat \<Rightarrow> rat" where
  "safeDiv a b = (if b = 0 then 0 else a / b)"

text \<open>
  \<^verbatim>\<open>Number(x.toFixed(k))\<close>: \<^verbatim>\<open>toFixed\<close> takes the integer \<open>n\<close> with \<open>n / 10^k\<close> nearest
  to the magnitude of \<open>x\<close>, the larger one of two, and keeps the sign; from \<open>10^21\<close> on it
  prints the number itself.
\<close>

definition toFixed :: "rat \<Rightarrow> nat \<Rightarrow> rat" where
  "toFixed x k =
     (if \<bar>x\<bar> \<ge> 10 ^ 21 then x
      else if x < 0 then - (of_int \<lfloor>(- x) * 10 ^ k + 1 / 2\<rfloor> / 10 ^ k)
      else of_int \<lfloor>x * 10 ^ k + 1 / 2\<rfloor> / 10 ^ k)"

text \<open>
  \<^verbatim>\<open>Object.values(stats)\<close>: the values of the properties whose names are array indices
  (canonical decimal numerals below \<open>2^32 - 1\<close>) in ascending numeric order, then the others
  in the order they were created.
\<close>

definition digit_val :: "char \<Rightarrow> int" where
  "digit_val c = of_char c - 48"

definition is_digit :: "char \<Rightarrow> bool" where
  "is_digit c \<longleftrightarrow> 48 \<le> (of_char c :: int) \<and> (of_char c :: int) \<le> 57"

definition decimal :: "string \<Rightarrow> int" where
  "decimal s = foldl (\<lambda>n c. 10 * n + digit_val c) 0 s"

definition array_index :: "string \<Rightarrow> int option" where
  "array_index s =
     (if s \<noteq> [] \<and> list_all is_digit s \<and> (s = ''0'' \<or> hd s \<noteq> CHR ''0'') \<and>
         decimal s < 2 ^ 32 - 1
      then Some (decimal s) else None)"

definition object_values :: "(string \<times> 'v) list \<Rightarrow> 'v list" where
  "object_values kvs =
     map snd (sort_key (\<lambda>kv. the (array_index (fst kv))) (filter (\<lambda>kv. array_index (fst kv) \<noteq> None) kvs))
     @ map snd (filter (\<lambda>kv. array_index (fst kv) = None) kvs)"

section \<open>Aggregator\<close>

text \<open>The per-player batting totals, \<^verbatim>\<open>stats[id]\<close> of \<^verbatim>\<open>aggregatedBatting\<close>.\<close>

record batting_totals =
  b_id :: "cell option"
  b_name :: "cell option"
  b_number :: "cell option"
  b_games :: rat
  b_pa :: rat
  b_ab :: rat
  b_h :: rat
  b_doubles :: rat
  b_triples :: rat
  b_hr :: rat
  b_rbi :: rat
  b_runs :: rat
  b_so :: rat
  b_bb :: rat
  b_hbp :: rat
  b_sb :: rat
  b_sf :: rat
  b_sac :: rat

text \<open>An aggregated batting row: \<^verbatim>\<open>{...s, avg, obp, slg, ops, bbK, isoD}\<close>.\<close>

record batting_row = batting_totals +
  avg :: rat
  obp :: rat
  slg :: rat
  ops :: rat
  bbK :: rat
  isoD :: rat

definition batting_new :: "row \<Rightarrow> batting_totals" where
  "batting_new r =
     \<lparr>b_id = r col_playerId, b_name = r col_name, b_number = r col_number,
      b_games = 0, b_pa = 0, b_ab = 0, b_h = 0, b_doubles = 0, b_triples = 0, b_hr = 0,
      b_rbi = 0, b_runs = 0, b_so = 0, b_bb = 0, b_hbp = 0, b_sb = 0, b_sf = 0, b_sac = 0\<rparr>"

definition batting_add :: "batting_totals \<Rightarrow> row \<Rightarrow> batting_totals" where
  "batting_add s r =
     s\<lparr>b_games := b_games s + 1,
       b_pa := b_pa s + or0 (r col_pa),
       b_ab := b_ab s + or0 (r col_ab),
       b_h := b_h s + or0 (r col_hits),
       b_doubles := b_doubles s + or0 (r col_doubles),
       b_triples := b_triples s + or0 (r col_triples),
       b_hr := b_hr s + or0 (r col_hr),
       b_rbi := b_rbi s + or0 (r col_rbi),
       b_runs := b_runs s + or0 (r col_runs),
       b_so := b_so s + or0 (r col_so),
       b_bb := b_bb s + or0 (r col_bb),
       b_hbp := b_hbp s + or0 (r col_hbp),
       b_sb := b_sb s + or0 (r col_sb),
       b_sf := b_sf s + or0 (r col_sf),
       b_sac := b_sac s + or0 (r col_sac)\<rparr>"

text \<open>
  The \<^verbatim>\<open>forEach\<close> over the filtered rows; \<^verbatim>\<open>stats\<close> is the list of its properties in
  creation order. (A player key that names a member of \<^verbatim>\<open>Object.prototype\<close>, such as
  \<^verbatim>\<open>constructor\<close>, is not modelled.)
\<close>

fun batting_stats :: "(string \<times> batting_totals) list \<Rightarrow> row list \<Rightarrow> (string \<times> batting_totals) list" where
  "batting_stats stats [] = stats"
| "batting_stats stats (r # rs) =
     (let id = player_key r;
          s = (case map_of stats id of None \<Rightarrow> batting_new r | Some s0 \<Rightarrow> s0)
      in batting_stats (AList.update id (batting_add s r) stats) rs)"

definition batting_derive :: "batting_totals \<Rightarrow> batting_row" where
  "batting_derive s =
     (let avg0 = safeDiv (b_h s) (b_ab s);
          obp0 = safeDiv (b_h s + b_bb s + b_hbp s) (b_ab s + b_bb s + b_hbp s + b_sf s);
          singles = b_h s - b_doubles s - b_triples s - b_hr s;
          totalBases = singles + (b_doubles s * 2) + (b_triples s * 3) + (b_hr s * 4);
          slg0 = safeDiv totalBases (b_ab s);
          ops0 = obp0 + slg0;
          bbK0 = safeDiv (b_bb s + b_hbp s) (b_so s);
          isoD0 = obp0 - avg0
      in batting_totals.extend s
           (batting_row.fields (toFixed avg0 3) (toFixed obp0 3) (toFixed slg0 3)
              (toFixed ops0 3) (toFixed bbK0 2) (toFixed isoD0 3)))"

text \<open>\<^verbatim>\<open>.sort((a, b) => b.avg - a.avg)\<close>: a stable sort, descending by \<^verbatim>\<open>avg\<close>.\<close>

definition aggregatedBatting :: "row list \<Rightarrow> batting_row list" where
  "aggregatedBatting filteredBattingData =
     sort_key (\<lambda>a. - avg a) (map batting_derive (object_values (batting_stats [] filteredBattingData)))"


text \<open>The per-player pitching totals, \<^verbatim>\<open>stats[id]\<close> of \<^verbatim>\<open>aggregatedPitching\<close>.\<close>

record pitching_totals =
  p_id :: "cell option"
  p_name :: "cell option"
  p_number :: "cell option"
  p_games :: rat
  p_outs :: rat
  p_h :: rat
  p_r :: rat
  p_er :: rat
  p_bb :: rat
  p_so :: rat
  p_win :: rat
  p_loss :: rat
  p_sv :: rat

text \<open>
  An aggregated pitching row: \<^verbatim>\<open>{...s, displayInnings, era, whip, kbb, inningsVal}\<close>. The
  string \<^verbatim>\<open>displayInnings\<close> is kept as its two parts: the whole innings
  \<^verbatim>\<open>Math.floor(s.outs / 3)\<close> and, when \<^verbatim>\<open>s.outs % 3 > 0\<close>, the remainder printed after the
  point.
\<close>

record pitching_row = pitching_totals +
  displayInnings :: "int \<times> rat option"
  era :: rat
  whip :: rat
  kbb :: rat
  inningsVal :: rat

definition pitching_new :: "row \<Rightarrow> pitching_totals" where
  "pitching_new r =
     \<lparr>p_id = r col_playerId, p_name = r col_name, p_number = r col_number,
      p_games = 0, p_outs = 0, p_h = 0, p_r = 0, p_er = 0, p_bb = 0, p_so = 0,
      p_win = 0, p_loss = 0, p_sv = 0\<rparr>"

definition pitching_add :: "pitching_totals \<Rightarrow> row \<Rightarrow> pitching_totals" where
  "pitching_add s r =
     s\<lparr>p_games := p_games s + 1,
       p_outs := p_outs s + or0 (r col_outs),
       p_h := p_h s + or0 (r col_hits),
       p_r := p_r s + or0 (r col_runsAllowed),
       p_er := p_er s + or0 (r col_er),
       p_bb := p_bb s + or0 (r col_bb),
       p_so := p_so s + or0 (r col_so),
       p_win := p_win s + or0 (r col_win),
       p_loss := p_loss s + or0 (r col_loss),
       p_sv := p_sv s + or0 (r col_sv)\<rparr>"

fun pitching_stats :: "(string \<times> pitching_totals) list \<Rightarrow> row list \<Rightarrow> (string \<times> pitching_totals) list" where
  "pitching_stats stats [] = stats"
| "pitching_stats stats (r # rs) =
     (let id = player_key r;
          s = (case map_of stats id of None \<Rightarrow> pitching_new r | Some s0 \<Rightarrow> s0)
      in pitching_stats (AList.update id (pitching_add s r) stats) rs)"

text \<open>The remainder operator \<^verbatim>\<open>a % 3\<close>: the quotient is truncated towards zero.\<close>

definition rem3 :: "rat \<Rightarrow> rat" where
  "rem3 a = (if a < 0 then - (- a - 3 * of_int \<lfloor>- a / 3\<rfloor>) else a - 3 * of_int \<lfloor>a / 3\<rfloor>)"

definition pitching_derive :: "pitching_totals \<Rightarrow> pitching_row" where
  "pitching_derive s =
     (let displayInnings0 = (\<lfloor>p_outs s / 3\<rfloor>, if rem3 (p_outs s) > 0 then Some (rem3 (p_outs s)) else None);
          era0 = safeDiv (p_er s * 7) (p_outs s / 3);
          whip0 = safeDiv (p_bb s + p_h s) (p_outs s / 3);
          kbb0 = safeDiv (p_so s) (p_bb s)
      in pitching_totals.extend s
           (pitching_row.fields displayInnings0 (toFixed era0 2) (toFixed whip0 2)
              (toFixed kbb0 2) (p_outs s / 3)))"

text \<open>\<^verbatim>\<open>.sort((a, b) => a.era - b.era)\<close>: a stable sort, ascending by \<^verbatim>\<open>era\<close>.\<close>

definition aggregatedPitching :: "row list \<Rightarrow> pitching_row list" where
  "aggregatedPitching filteredPitchingData =
     sort_key era (map pitching_derive (object_values (pitching_stats [] filteredPitchingData)))"

section \<open>Date normalizer\<close>

text \<open>
  A \<^verbatim>\<open>Date\<close> is modelled by its time value, the milliseconds since the epoch, as an
  integer; a valid \<^verbatim>\<open>Date\<close> has a time value of at most \<open>8.64 * 10^15\<close> in magnitude
  (\<open>timeClip\<close>), and \<open>None\<close> stands for the invalid date, whose time value is \<^verbatim>\<open>NaN\<close>.
  Local time is UTC shifted by a constant offset \<open>tza\<close> in milliseconds (no daylight
  saving); the offset of a time zone is less than a day, and a signed 32-bit integer holds it.
\<close>

definition msPerDay :: int where
  "msPerDay = 86400000"

definition maxTime :: int where
  "maxTime = 8640000000000000"

definition timeClip :: "int \<Rightarrow> int option" where
  "timeClip t = (if \<bar>t\<bar> \<le> maxTime then Some t else None)"

text \<open>The day number of the first of January of a year, and leap years (ECMAScript, 21.4.1).\<close>

definition dayFromYear :: "int \<Rightarrow> int" where
  "dayFromYear y = 365 * (y - 1970) + (y - 1969) div 4 - (y - 1901) div 100 + (y - 1601) div 400"

definition inLeapYear :: "int \<Rightarrow> bool" where
  "inLeapYear y \<longleftrightarrow> y mod 4 = 0 \<and> (y mod 100 \<noteq> 0 \<or> y mod 400 = 0)"

text \<open>The days of a year before its month of index \<open>mn\<close>, from \<open>0\<close> for January.\<close>

definition monthStart :: "int \<Rightarrow> int \<Rightarrow> int" where
  "monthStart y mn =
     [0, 31, 59, 90, 120, 151, 181, 212, 243, 273, 304, 334] ! nat mn
     + (if inLeapYear y \<and> 2 \<le> mn then 1 else 0)"

text \<open>
  \<^verbatim>\<open>MakeDay(year, month, date)\<close>: a month index outside \<open>0..11\<close> carries into the year, and
  a day of the month outside the month runs over into the neighbouring months.
\<close>

definition makeDay :: "int \<Rightarrow> int \<Rightarrow> int \<Rightarrow> int" where
  "makeDay year month date =
     (let ym = year + month div 12; mn = month mod 12
      in dayFromYear ym + monthStart ym mn + date - 1)"

text \<open>
  \<^verbatim>\<open>new Date(year, monthIndex, day)\<close>: local midnight of that day, when that is a valid
  time value; a year from 0 to 99 stands for 1900 to 1999.
\<close>

definition newDate :: "32 word \<Rightarrow> int \<Rightarrow> int \<Rightarrow> int \<Rightarrow> int option" where
  "newDate tza year monthIndex day =
     (let yr = (if 0 \<le> year \<and> year \<le> 99 then 1900 + year else year)
      in timeClip (makeDay yr monthIndex day * msPerDay - sint tza))"

text \<open>
  White space, as \<^verbatim>\<open>trim\<close> and \<^verbatim>\<open>parseInt\<close> see it: the ECMAScript white space and line
  terminator characters, here by their UTF-8 bytes. \<open>ws_len s\<close> is the length of the
  white space character \<open>s\<close> begins with, \<open>0\<close> when it begins with none, and
  \<open>ws_len_end\<close> the same for the end of \<open>s\<close>.
\<close>

definition ws3 :: "string list" where
  "ws3 =
     [[CHR 0xE1, CHR 0x9A, CHR 0x80], [CHR 0xE2, CHR 0x80, CHR 0x80],
      [CHR 0xE2, CHR 0x80, CHR 0x81], [CHR 0xE2, CHR 0x80, CHR 0x82],
      [CHR 0xE2, CHR 0x80, CHR 0x83], [CHR 0xE2, CHR 0x80, CHR 0x84],
      [CHR 0xE2, CHR 0x80, CHR 0x85], [CHR 0xE2, CHR 0x80, CHR 0x86],
      [CHR 0xE2, CHR 0x80, CHR 0x87], [CHR 0xE2, CHR 0x80, CHR 0x88],
      [CHR 0xE2, CHR 0x80, CHR 0x89], [CHR 0xE2, CHR 0x80, CHR 0x8A],
      [CHR 0xE2, CHR 0x80, CHR 0xA8], [CHR 0xE2, CHR 0x80, CHR 0xA9],
      [CHR 0xE2, CHR 0x80, CHR 0xAF], [CHR 0xE2, CHR 0x81, CHR 0x9F],
      [CHR 0xE3, CHR 0x80, CHR 0x80], [CHR 0xEF, CHR 0xBB, CHR 0xBF]]"

definition is_space :: "char \<Rightarrow> bool" where
  "is_space c \<longleftrightarrow> c \<in> set [CHR 0x09, CHR 0x0A, CHR 0x0B, CHR 0x0C, CHR 0x0D, CHR '' '']"

definition ws_len :: "string \<Rightarrow> nat" where
  "ws_len s =
     (if s \<noteq> [] \<and> is_space (hd s) then 1
      else if take 2 s = [CHR 0xC2, CHR 0xA0] then 2
      else if take 3 s \<in> set ws3 then 3
      else 0)"

definition ws_len_end :: "string \<Rightarrow> nat" where
  "ws_len_end s =
     (if s \<noteq> [] \<and> is_space (last s) then 1
      else if 2 \<le> length s \<and> drop (length s - 2) s = [CHR 0xC2, CHR 0xA0] then 2
      else if 3 \<le> length s \<and> drop (length s - 3) s \<in> set ws3 then 3
      else 0)"

fun trimStart_loop :: "nat \<Rightarrow> string \<Rightarrow> string" where
  "trimStart_loop 0 s = s"
| "trimStart_loop (Suc n) s = (if ws_len s = 0 then s else trimStart_loop n (drop (ws_len s) s))"

fun trimEnd_loop :: "nat \<Rightarrow> string \<Rightarrow> string" where
  "trimEnd_loop 0 s = s"
| "trimEnd_loop (Suc n) s =
     (if ws_len_end s = 0 then s else trimEnd_loop n (take (length s - ws_len_end s) s))"

text \<open>
  \<^verbatim>\<open>s.trim()\<close>. Each round removes one white space character, so \<open>length s\<close> rounds
  remove them all.
\<close>

definition trimStart :: "string \<Rightarrow> string" where
  "trimStart s = trimStart_loop (length s) s"

definition trimEnd :: "string \<Rightarrow> string" where
  "trimEnd s = trimEnd_loop (length s) s"

definition trim_str :: "string \<Rightarrow> string" where
  "trim_str s = trimEnd (trimStart s)"

text \<open>
  \<^verbatim>\<open>parseInt(s, 10)\<close>: leading white space is skipped, then an optional sign, then the
  longest run of decimal digits; \<open>None\<close> is \<^verbatim>\<open>NaN\<close>, when there is no digit.
\<close>

definition parseInt :: "string \<Rightarrow> int option" where
  "parseInt str =
     (let s = trimStart str;
          neg = (s \<noteq> [] \<and> hd s = CHR ''-'');
          s1 = (if s \<noteq> [] \<and> (hd s = CHR ''-'' \<or> hd s = CHR ''+'') then tl s else s);
          z = takeWhile is_digit s1
      in if z = [] then None else Some (if neg then - decimal z else decimal z))"

text \<open>\<^verbatim>\<open>str.split(/[-/]/)\<close>, written for any set of separator characters.\<close>

fun split_on :: "(char \<Rightarrow> bool) \<Rightarrow> string \<Rightarrow> string list" where
  "split_on sep [] = [[]]"
| "split_on sep (c # cs) =
     (if sep c then [] # split_on sep cs
      else (case split_on sep cs of [] \<Rightarrow> [[c]] | p # ps \<Rightarrow> (c # p) # ps))"

text \<open>
  \<^verbatim>\<open>parseDate(dateStr)\<close>. The argument is a string or \<^verbatim>\<open>undefined\<close> (\<open>None\<close>).
  \<^verbatim>\<open>new Date(dateStr)\<close>, whose parsing of anything but the ISO format is left to the engine,
  is the parameter \<open>dateParse\<close>: the time value of the date, \<open>None\<close> for an invalid date.
  The test \<^verbatim>\<open>!isNaN(d.getTime())\<close> on the constructed date is the case distinction on
  \<open>newDate\<close>.
\<close>

definition parseDate :: "32 word \<Rightarrow> (string \<Rightarrow> int option) \<Rightarrow> string option \<Rightarrow> int" where
  "parseDate tza dateParse dateStr =
     (case dateStr of
        None \<Rightarrow> 0
      | Some s \<Rightarrow>
          if s = [] then 0
          else
            (let parts = split_on (\<lambda>c. c = CHR ''-'' \<or> c = CHR ''/'') s;
                 fallback = (case dateParse s of Some t \<Rightarrow> t | None \<Rightarrow> 0)
             in if length parts = 3 then
                  (case (parseInt (parts ! 0), parseInt (parts ! 1), parseInt (parts ! 2)) of
                     (Some year, Some month, Some day) \<Rightarrow>
                       (case newDate tza year (month - 1) day of
                          Some d \<Rightarrow> d
                        | None \<Rightarrow> fallback)
                   | _ \<Rightarrow> fallback)
                else fallback))"

section \<open>Record filter\<close>

text \<open>The filter state: an empty date or keyword and the category \<^verbatim>\<open>'all'\<close> mean no constraint.\<close>

record filters =
  startDate :: string
  endDate :: string
  teamKeyword :: string
  category :: string

text \<open>
  The cell of an identifier column as the string it is; \<^verbatim>\<open>parseCSV\<close> never stores a number
  there. \<open>text_or_empty\<close> is \<^verbatim>\<open>(row[k] || '')\<close>.
\<close>

definition text_of :: "cell option \<Rightarrow> string option" where
  "text_of v = (case v of Some (Str s) \<Rightarrow> Some s | _ \<Rightarrow> None)"

definition text_or_empty :: "cell option \<Rightarrow> string" where
  "text_or_empty v = (case v of Some (Str s) \<Rightarrow> s | _ \<Rightarrow> [])"

text \<open>\<^verbatim>\<open>toLowerCase\<close> on the ASCII letters, and \<^verbatim>\<open>s.includes(kw)\<close>.\<close>

definition toLowerCase :: "string \<Rightarrow> string" where
  "toLowerCase s =
     map (\<lambda>c. if 65 \<le> (of_char c :: int) \<and> (of_char c :: int) \<le> 90
               then char_of (of_char c + (32 :: int)) else c) s"

fun js_includes :: "string \<Rightarrow> string \<Rightarrow> bool" where
  "js_includes [] kw = (kw = [])"
| "js_includes (c # cs) kw = (take (length kw) (c # cs) = kw \<or> js_includes cs kw)"

text \<open>
  The predicate of \<^verbatim>\<open>data.filter(row => \<dots>)\<close> in \<^verbatim>\<open>filterData\<close>.
  \<^verbatim>\<open>end.setDate(end.getDate() + 1)\<close> moves the end date one day on. (Should that leave the
  range of valid dates, the comparison \<^verbatim>\<open>rowDate >= end\<close> is false for every row; so it is
  here, every row date being a valid one.)
\<close>

definition keep_row :: "32 word \<Rightarrow> (string \<Rightarrow> int option) \<Rightarrow> filters \<Rightarrow> row \<Rightarrow> bool" where
  "keep_row tza dateParse f r =
     (let rowDate = parseDate tza dateParse (text_of (r col_date));
          start = (if startDate f \<noteq> [] then Some (parseDate tza dateParse (Some (startDate f)))
                   else None);
          end' = (if endDate f \<noteq> []
                  then Some (parseDate tza dateParse (Some (endDate f)) + msPerDay)
                  else None)
      in if (case start of Some s \<Rightarrow> rowDate < s | None \<Rightarrow> False) then False
         else if (case end' of Some e \<Rightarrow> rowDate \<ge> e | None \<Rightarrow> False) then False
         else if teamKeyword f \<noteq> [] \<and>
                 \<not> js_includes (toLowerCase (text_or_empty (r col_away))) (toLowerCase (teamKeyword f)) \<and>
                 \<not> js_includes (toLowerCase (text_or_empty (r col_home))) (toLowerCase (teamKeyword f))
              then False
         else if category f \<noteq> ''all'' \<and> r col_title \<noteq> Some (Str (category f)) then False
         else True)"

definition filterData :: "32 word \<Rightarrow> (string \<Rightarrow> int option) \<Rightarrow> filters \<Rightarrow> row list \<Rightarrow> row list" where
  "filterData tza dateParse f data = filter (keep_row tza dateParse f) data"

subsection \<open>Calendar dates, for the statements about the normalizer and the filter\<close>

text \<open>
  The three numbers a date string splits into, when it has exactly three parts and each
  begins with an integer.
\<close>

definition date_parts :: "string \<Rightarrow> (int \<times> int \<times> int) option" where
  "date_parts s =
     (case split_on (\<lambda>c. c = CHR ''-'' \<or> c = CHR ''/'') s of
        [a, b, c] \<Rightarrow>
          (case (parseInt a, parseInt b, parseInt c) of
             (Some y, Some m, Some d) \<Rightarrow> Some (y, m, d)
           | _ \<Rightarrow> None)
      | _ \<Rightarrow> None)"

text \<open>
  A valid calendar date, in the words of the specification: a month from 1 to 12 and a day
  that the month has in that year. \<open>local_midnight\<close> is the time value of local midnight
  of such a date, where local time is \<open>offset\<close> milliseconds ahead of UTC.
\<close>

definition daysInMonth :: "int \<Rightarrow> int \<Rightarrow> int" where
  "daysInMonth y m =
     (if m = 2 then (if inLeapYear y then 29 else 28)
      else if m \<in> set [4, 6, 9, 11] then 30 else 31)"

definition valid_calendar_date :: "int \<Rightarrow> int \<Rightarrow> int \<Rightarrow> bool" where
  "valid_calendar_date y m d \<longleftrightarrow> 1 \<le> m \<and> m \<le> 12 \<and> 1 \<le> d \<and> d \<le> daysInMonth y m"

definition local_midnight :: "int \<Rightarrow> int \<Rightarrow> int \<Rightarrow> int \<Rightarrow> int" where
  "local_midnight offset y m d =
     (dayFromYear y + monthStart y (m - 1) + d - 1) * msPerDay - offset"

text \<open>The date strings \<^verbatim>\<open>2024-04-01\<close> to \<^verbatim>\<open>2024-04-30\<close> by their day.\<close>

definition april_2024 :: "nat \<Rightarrow> string" where
  "april_2024 d = ''2024-04-'' @ [''0123456789'' ! (d div 10), ''0123456789'' ! (d mod 10)]"

section \<open>Ranking\<close>

text \<open>
  \<^verbatim>\<open>p[comparisonMetric]\<close> on an aggregated row, as a number: the numeric properties of the
  row by name. Any other name gives \<open>None\<close>: the property is \<^verbatim>\<open>undefined\<close> or not a
  number (\<^verbatim>\<open>id\<close>, \<^verbatim>\<open>name\<close>, \<^verbatim>\<open>number\<close>, \<^verbatim>\<open>displayInnings\<close>), and a difference with it
  is \<^verbatim>\<open>NaN\<close>.
\<close>

definition batting_prop :: "batting_row \<Rightarrow> string \<Rightarrow> rat option" where
  "batting_prop p k =
     map_of [(''games'', b_games p), (''pa'', b_pa p), (''ab'', b_ab p), (''h'', b_h p),
             (''doubles'', b_doubles p), (''triples'', b_triples p), (''hr'', b_hr p),
             (''rbi'', b_rbi p), (''runs'', b_runs p), (''so'', b_so p), (''bb'', b_bb p),
             (''hbp'', b_hbp p), (''sb'', b_sb p), (''sf'', b_sf p), (''sac'', b_sac p),
             (''avg'', avg p), (''obp'', obp p), (''slg'', slg p), (''ops'', ops p),
             (''bbK'', bbK p), (''isoD'', isoD p)] k"

definition pitching_prop :: "pitching_row \<Rightarrow> string \<Rightarrow> rat option" where
  "pitching_prop p k =
     map_of [(''games'', p_games p), (''outs'', p_outs p), (''h'', p_h p), (''r'', p_r p),
             (''er'', p_er p), (''bb'', p_bb p), (''so'', p_so p), (''win'', p_win p),
             (''loss'', p_loss p), (''sv'', p_sv p), (''era'', era p), (''whip'', whip p),
             (''kbb'', kbb p), (''inningsVal'', inningsVal p)] k"

text \<open>An entry of the ranking: \<^verbatim>\<open>{ name, value, displayValue }\<close>.\<close>

record ranking_entry =
  rk_name :: "cell option"
  rk_value :: "rat option"
  rk_displayValue :: "rat option"

definition pitching_entry :: "string \<Rightarrow> pitching_row \<Rightarrow> ranking_entry" where
  "pitching_entry comparisonMetric p =
     \<lparr>rk_name = p_name p, rk_value = pitching_prop p comparisonMetric,
      rk_displayValue = pitching_prop p comparisonMetric\<rparr>"

definition batting_entry :: "string \<Rightarrow> batting_row \<Rightarrow> ranking_entry" where
  "batting_entry comparisonMetric p =
     \<lparr>rk_name = b_name p, rk_value = batting_prop p comparisonMetric,
      rk_displayValue = batting_prop p comparisonMetric\<rparr>"

text \<open>
  \<^verbatim>\<open>data.sort((a, b) => a.value - b.value)\<close> and \<^verbatim>\<open>data.sort((a, b) => b.value - a.value)\<close>:
  a stable sort by the difference of the values. When the values are \<^verbatim>\<open>undefined\<close> every
  difference is \<^verbatim>\<open>NaN\<close>, which \<^verbatim>\<open>sort\<close> takes as \<open>0\<close>, and the order stays as it is.
  Whether the entries have a value depends on the metric alone, so either all have one or
  none has.
\<close>

definition sort_by_value :: "bool \<Rightarrow> ranking_entry list \<Rightarrow> ranking_entry list" where
  "sort_by_value ascending data =
     (if list_ex (\<lambda>d. rk_value d = None) data then data
      else if ascending then sort_key (\<lambda>d. the (rk_value d)) data
      else sort_key (\<lambda>d. - the (rk_value d)) data)"

definition rankingData ::
  "batting_row list \<Rightarrow> pitching_row list \<Rightarrow> string \<Rightarrow> rat \<Rightarrow> ranking_entry list" where
  "rankingData batting pitching comparisonMetric comparisonMinPA =
     (let isPitching = comparisonMetric \<in> set [''era'', ''whip'', ''kbb'', ''so'', ''win''];
          data =
            (if isPitching
             then map (pitching_entry comparisonMetric)
                    (filter (\<lambda>p. inningsVal p \<ge> comparisonMinPA) pitching)
             else map (batting_entry comparisonMetric)
                    (filter (\<lambda>p. b_pa p \<ge> comparisonMinPA) batting))
      in if comparisonMetric \<in> set [''era'', ''whip''] then sort_by_value True data
         else sort_by_value False data)"


text \<open>A small game log, three players on one day, for the examples below.\<close>

definition sample_batting :: "row list" where
  "sample_batting =
     [Map.empty(col_name \<mapsto> Str ''a'', col_pa \<mapsto> Num 4, col_ab \<mapsto> Num 4, col_hits \<mapsto> Num 1),
      Map.empty(col_name \<mapsto> Str ''b'', col_pa \<mapsto> Num 5, col_ab \<mapsto> Num 4, col_hits \<mapsto> Num 2),
      Map.empty(col_name \<mapsto> Str ''c'', col_pa \<mapsto> Num 1, col_ab \<mapsto> Num 1, col_hits \<mapsto> Num 1)]"

definition sample_pitching :: "row list" where
  "sample_pitching =
     [Map.empty(col_name \<mapsto> Str ''a'', col_outs \<mapsto> Num 18, col_er \<mapsto> Num 3),
      Map.empty(col_name \<mapsto> Str ''b'', col_outs \<mapsto> Num 9, col_er \<mapsto> Num 1),
      Map.empty(col_name \<mapsto> Str ''c'', col_outs \<mapsto> Num 2, col_er \<mapsto> Num 0)]"

section \<open>CSV import\<close>

text \<open>
  \<^verbatim>\<open>parseCSV(text)\<close>. The conversion of a cell to a number, \<^verbatim>\<open>isNaN(val)\<close> and
  \<^verbatim>\<open>Number(val)\<close>, is the parameter \<open>toNumber\<close>: the number a non-empty string denotes,
  \<open>None\<close> when it denotes none.
\<close>

definition text_columns :: "string list" where
  "text_columns =
     [col_playerId, col_name, col_date, col_gameId, col_score, col_category, col_venue,
      col_title, col_number, col_away, col_home]"

definition parse_cell :: "(string \<Rightarrow> rat option) \<Rightarrow> string \<Rightarrow> string \<Rightarrow> cell" where
  "parse_cell toNumber header val =
     (if header \<notin> set text_columns \<and> val \<noteq> [] then
        (case toNumber val of Some n \<Rightarrow> Num n | None \<Rightarrow> Str val)
      else Str val)"

text \<open>
  The body of the loop over the data lines: \<open>None\<close> for a line that is skipped, otherwise
  the object built by the inner loop over the headers.
\<close>

definition parse_line :: "(string \<Rightarrow> rat option) \<Rightarrow> string list \<Rightarrow> string \<Rightarrow> row option" where
  "parse_line toNumber headers line =
     (let currentline = split_on (\<lambda>c. c = CHR '','') line
      in if length currentline \<le> 1 then None
         else Some (foldl
           (\<lambda>obj j.
              let val = (if j < length currentline \<and> currentline ! j \<noteq> []
                         then trim_str (currentline ! j) else [])
              in obj(headers ! j \<mapsto> parse_cell toNumber (headers ! j) val))
           Map.empty [0..<length headers]))"

definition parseCSV :: "(string \<Rightarrow> rat option) \<Rightarrow> string \<Rightarrow> row list" where
  "parseCSV toNumber text =
     (let lines = split_on (\<lambda>c. c = CHR 0x0A) (trim_str text)
      in if length lines < 2 then []
         else
           (let headerLine0 = hd lines;
                headerLine = (if take 3 headerLine0 = [CHR 0xEF, CHR 0xBB, CHR 0xBF]
                              then drop 3 headerLine0 else headerLine0);
                headers = map trim_str (split_on (\<lambda>c. c = CHR '','') headerLine)
            in List.map_filter (parse_line toNumber headers) (tl lines)))"

text \<open>
  The state \<^verbatim>\<open>handleFileUpload\<close> reads and writes: the two data sets, the import message,
  the time of the last import and the three keys of \<^verbatim>\<open>localStorage\<close>.
\<close>

datatype import_status = NoMessage | Reading | Imported nat

record app_state =
  battingData :: "row list"
  pitchingData :: "row list"
  lastUpdated :: "string option"
  importStatus :: import_status
  bb_stats_batting :: "row list option"
  bb_stats_pitching :: "row list option"
  bb_stats_date :: "string option"

datatype js_error = TypeError

text \<open>
  \<^verbatim>\<open>k in data[0]\<close>: a \<^verbatim>\<open>TypeError\<close> when \<^verbatim>\<open>data[0]\<close> is \<^verbatim>\<open>undefined\<close>, that is when the
  file gave no row.
\<close>

definition key_in_first :: "string \<Rightarrow> row list \<Rightarrow> js_error + bool" where
  "key_in_first k data = (case data of [] \<Rightarrow> Inl TypeError | r # _ \<Rightarrow> Inr (r k \<noteq> None))"

text \<open>
  The loop \<^verbatim>\<open>for (const file of files)\<close>; a file is its name and its text. The first test
  is \<^verbatim>\<open>file.name.includes('_b.csv') || (data[0] && '\<dots>' in data[0])\<close>, the second
  \<^verbatim>\<open>file.name.includes('_p.csv') || (data[0] && '\<dots>' in data[0] || '\<dots>' in data[0])\<close>, where
  \<^verbatim>\<open>&&\<close> binds tighter than \<^verbatim>\<open>||\<close>: the last \<^verbatim>\<open>in\<close> is evaluated whenever the name does
  not match and the guarded test before it is false.
\<close>

fun import_files ::
  "(string \<Rightarrow> rat option) \<Rightarrow> (string \<times> string) list \<Rightarrow> row list \<Rightarrow> row list \<Rightarrow> nat
     \<Rightarrow> js_error + (row list \<times> row list \<times> nat)" where
  "import_files toNumber [] newBatting newPitching importedCount =
     Inr (newBatting, newPitching, importedCount)"
| "import_files toNumber ((name, text) # files) newBatting newPitching importedCount =
     (let data = parseCSV toNumber text
      in if js_includes name ''_b.csv'' \<or> (data \<noteq> [] \<and> key_in_first col_pa data = Inr True)
         then import_files toNumber files data newPitching (importedCount + 1)
         else if js_includes name ''_p.csv'' \<or>
                 (data \<noteq> [] \<and> key_in_first col_innings data = Inr True)
         then import_files toNumber files newBatting data (importedCount + 1)
         else (case key_in_first col_pitches data of
                 Inl e \<Rightarrow> Inl e
               | Inr True \<Rightarrow> import_files toNumber files newBatting data (importedCount + 1)
               | Inr False \<Rightarrow> import_files toNumber files newBatting newPitching importedCount))"

text \<open>
  \<^verbatim>\<open>handleFileUpload\<close>, with the reading of the clock as the parameter \<open>now\<close>. When the
  loop throws, the promise of the handler is rejected with the state as it is then: the
  message \<^verbatim>\<open>Reading\<close> set before the loop and nothing else.
\<close>

definition handleFileUpload ::
  "(string \<Rightarrow> rat option) \<Rightarrow> string \<Rightarrow> (string \<times> string) list \<Rightarrow> app_state
     \<Rightarrow> (js_error \<times> app_state) + app_state" where
  "handleFileUpload toNumber now files st =
     (let st1 = st\<lparr>importStatus := Reading\<rparr>
      in case import_files toNumber files (battingData st) (pitchingData st) 0 of
           Inl e \<Rightarrow> Inl (e, st1)
         | Inr (newBatting, newPitching, importedCount) \<Rightarrow>
             Inr (st1\<lparr>battingData := newBatting, pitchingData := newPitching,
                      bb_stats_batting := Some newBatting, bb_stats_pitching := Some newPitching,
                      bb_stats_date := Some now, lastUpdated := Some now,
                      importStatus := Imported importedCount\<rparr>))"

section \<open>Save with trim\<close>

lemma records_trim_loop:
  "records (trim_loop L c cs st) = filter (\<lambda>r. sid r \<notin> sid ` set (drop (L - c) cs)) (records st)"
proof (induction cs arbitrary: c st)
  case Nil
  then show ?case by simp
next
  case (Cons x cs)
  show ?case
  proof (cases "c + 1 > L")
    case True
    then have "L - c = 0" "L - (c + 1) = 0" by simp_all
    then show ?thesis using True
      by (simp add: Cons.IH delete_def Let_def conj_commute)
  next
    case False
    then have "L - c = Suc (L - (c + 1))" by simp
    then show ?thesis using False
      by (simp add: Cons.IH Let_def)
  qed
qed

lemma keygen_trim_loop: "keygen (trim_loop L c cs st) = keygen st"
  by (induction cs arbitrary: c st) (simp_all add: Let_def delete_def)

lemma cursor_prev_set: "set (cursor_prev st) = set (records st)"
  by (simp add: cursor_prev_def)

lemma cursor_prev_distinct:
  "distinct (map sid (records st)) \<Longrightarrow> distinct (map sid (cursor_prev st))"
  by (simp add: cursor_prev_def distinct_map)

lemma cursor_prev_desc:
  "sorted (rev (map (\<lambda>r. (timestamp r, sid r)) (cursor_prev st)))"
  by (simp add: cursor_prev_def rev_map)

lemma records_trim_set:
  assumes "distinct (map sid (records st))"
  shows "set (records (trim L st)) = set (take L (cursor_prev st))"
proof -
  let ?cs = "cursor_prev st"
  have d: "distinct (map sid ?cs)" using assms by (rule cursor_prev_distinct)
  have split: "set (records st) = set (take L ?cs) \<union> set (drop L ?cs)"
    using set_append[of "take L ?cs" "drop L ?cs"] by (simp add: cursor_prev_set)
  have "distinct (map sid (take L ?cs) @ map sid (drop L ?cs))"
    using d by (simp only: map_append[symmetric] append_take_drop_id)
  then have disj: "sid ` set (take L ?cs) \<inter> sid ` set (drop L ?cs) = {}"
    by simp
  have "set (records (trim L st)) = {r \<in> set (records st). sid r \<notin> sid ` set (drop L ?cs)}"
    by (simp add: trim_def records_trim_loop)
  also have "\<dots> = set (take L ?cs)"
    using split disj by auto
  finally show ?thesis .
qed

lemma records_trim_length:
  assumes "distinct (map sid (records st))"
  shows "length (records (trim L st)) = min L (length (records st))"
proof -
  have d1: "distinct (records (trim L st))"
    using assms by (simp add: trim_def records_trim_loop distinct_map)
  have d2: "distinct (take L (cursor_prev st))"
    using cursor_prev_distinct[OF assms] by (simp add: distinct_map)
  have "length (records (trim L st)) = card (set (records (trim L st)))"
    using d1 by (simp add: distinct_card)
  also have "\<dots> = card (set (take L (cursor_prev st)))"
    by (simp add: records_trim_set[OF assms])
  also have "\<dots> = length (take L (cursor_prev st))"
    using d2 by (simp add: distinct_card)
  also have "\<dots> = min L (length (records st))"
    by (simp add: cursor_prev_def min.commute)
  finally show ?thesis .
qed

lemma desc_take_drop:
  assumes "sorted (rev (map f cs))" "x \<in> set (take L cs)" "y \<in> set (drop L cs)"
  shows "f y \<le> f x"
proof -
  have "sorted (rev (map f (take L cs @ drop L cs)))" using assms(1) by simp
  then have "sorted (rev (map f (drop L cs)) @ rev (map f (take L cs)))"
    by (simp only: map_append rev_append)
  then show ?thesis using assms(2,3) by (auto simp: sorted_append)
qed

lemma trim_kept_most_recent:
  assumes "distinct (map sid (records st))"
  shows "kept_most_recent L (records st) (records (trim L st))"
proof -
  let ?cs = "cursor_prev st"
  have s: "set (records (trim L st)) = set (take L ?cs)" by (rule records_trim_set[OF assms])
  have sub: "set (take L ?cs) \<subseteq> set (records st)"
    using set_take_subset[of L ?cs] by (simp add: cursor_prev_set)
  have ord: "timestamp y \<le> timestamp x"
    if "x \<in> set (take L ?cs)" "y \<in> set (records st)" "y \<notin> set (take L ?cs)" for x y
  proof -
    have "y \<in> set (drop L ?cs)"
      using that(2,3) set_append[of "take L ?cs" "drop L ?cs"] by (simp add: cursor_prev_set)
    then have "(timestamp y, sid y) \<le> (timestamp x, sid x)"
      using desc_take_drop[OF cursor_prev_desc that(1)] by blast
    then show ?thesis by (auto simp: less_eq_prod_def)
  qed
  show ?thesis
    unfolding kept_most_recent_def list_all_iff s
    using sub ord records_trim_length[OF assms] by (auto simp: s)
qed

lemma store_wf_add: "store_wf st \<Longrightarrow> store_wf (add st name p now)"
  by (auto simp: store_wf_def add_def list_all_iff)

lemma store_wf_trim: "store_wf st \<Longrightarrow> store_wf (trim L st)"
  by (simp add: store_wf_def trim_def records_trim_loop keygen_trim_loop distinct_map_filter
      list_all_iff)

lemma store_wf_saveState: "store_wf st \<Longrightarrow> store_wf (saveState s n l t st)"
  by (simp add: saveState_def Let_def store_wf_add store_wf_trim)

lemma store_wf_saveParking: "store_wf st \<Longrightarrow> store_wf (saveParking s n l t st)"
  by (simp add: saveParking_def Let_def store_wf_add store_wf_trim)

lemma db_wf_apply_save: "db_wf d \<Longrightarrow> db_wf (apply_save d op)"
  by (cases op) (simp_all add: db_wf_def store_wf_saveState store_wf_saveParking)

lemma db_wf_run_saves: "db_wf d \<Longrightarrow> db_wf (run_saves d reqs)"
  unfolding run_saves_def
  by (induction reqs arbitrary: d) (simp_all add: db_wf_apply_save)

lemma last_is_greatest:
  fixes f :: "'b \<Rightarrow> 'k::linorder"
  assumes "sorted (map f ys)" and "x \<in> set ys" and "\<forall>y\<in>set ys. f y \<le> f x"
    and "inj_on f (set ys)"
  shows "last ys = x"
proof -
  have ne: "ys \<noteq> []" using assms(2) by auto
  obtain i where i: "i < length ys" "ys ! i = x"
    using assms(2) by (auto simp: in_set_conv_nth)
  have "f (ys ! i) \<le> f (ys ! (length ys - 1))"
    using assms(1) i(1) ne
    by (simp add: sorted_iff_nth_mono)
  then have "f x \<le> f (last ys)" using i(2) ne by (simp add: last_conv_nth)
  moreover have "f (last ys) \<le> f x" using assms(3) ne by simp
  ultimately have "f (last ys) = f x" by simp
  then show ?thesis using assms(2,4) ne by (auto dest: inj_onD)
qed

lemma newest_survives_trim:
  assumes wf: "store_wf st" and L: "0 < L"
    and old: "list_all (\<lambda>r. timestamp r \<le> now) (records st)"
  shows "\<lparr>sid = keygen st, sname = name, payload = p, timestamp = now\<rparr>
           \<in> set (records (trim L (add st name p now)))"
proof -
  let ?x = "\<lparr>sid = keygen st, sname = name, payload = p, timestamp = now\<rparr>"
  let ?st1 = "add st name p now"
  let ?f = "\<lambda>r::'a saved. (timestamp r, sid r)"
  let ?ys = "sort_key ?f (records ?st1)"
  have d: "distinct (map sid (records ?st1))"
    using store_wf_add[OF wf] by (simp add: store_wf_def)
  have x: "?x \<in> set ?ys" by (simp add: add_def)
  have mx: "\<forall>y\<in>set ?ys. ?f y \<le> ?f ?x"
    using wf old by (auto simp: add_def store_wf_def list_all_iff less_eq_prod_def)
  have "inj_on sid (set (records ?st1))" using d by (simp add: distinct_map)
  then have inj: "inj_on ?f (set ?ys)" by (auto simp: inj_on_def)
  have "last ?ys = ?x"
    by (rule last_is_greatest[OF sorted_sort_key x mx inj])
  moreover have "?ys \<noteq> []"
    using length_sort[of ?f "records ?st1"] by (auto simp: add_def simp del: length_sort)
  ultimately have "hd (cursor_prev ?st1) = ?x" "cursor_prev ?st1 \<noteq> []"
    by (simp_all add: cursor_prev_def hd_rev)
  then have "?x \<in> set (take L (cursor_prev ?st1))"
    using L by (cases "cursor_prev ?st1"; cases L) auto
  then show ?thesis using records_trim_set[OF d] by simp
qed

lemma trim_after_add:
  assumes "store_wf st"
  shows "saved_into L st name p now (trim L (add st name p now))"
proof -
  let ?x = "\<lparr>sid = keygen st, sname = name, payload = p, timestamp = now\<rparr>"
  have r: "records (add st name p now) = records st @ [?x]" by (simp add: add_def)
  have d: "distinct (map sid (records (add st name p now)))"
    using store_wf_add[OF assms] by (simp add: store_wf_def)
  have 1: "length (records (trim L (add st name p now))) \<le> L"
    using records_trim_length[OF d] by simp
  have 2: "kept_most_recent L (records st @ [?x]) (records (trim L (add st name p now)))"
    using trim_kept_most_recent[OF d] by (simp only: r)
  show ?thesis
    unfolding saved_into_def using 1 2 newest_survives_trim[OF assms] by blast
qed

lemma apply_save_post: "db_wf d \<Longrightarrow> save_post d op (apply_save d op)"
  by (cases op)
     (simp_all add: db_wf_def saveState_def saveParking_def Let_def trim_after_add)

lemma saveState_runs_its_transactions:
  "saveState state name limit now st = last (commits (saveState_transactions state name limit now) st)"
  by (simp add: saveState_def saveState_transactions_def Let_def)

lemma saveParking_runs_its_transactions:
  "saveParking p name limit now st = last (commits (saveParking_transactions p name limit now) st)"
  by (simp add: saveParking_def saveParking_transactions_def Let_def)

lemma add_then_trim_commits:
  assumes "store_wf st"
  shows "commits [\<lambda>st. add st name p now, trim L] st = [add st name p now, trim L (add st name p now)] \<and>
         length (records (add st name p now)) = length (records st) + 1 \<and>
         length (records (trim L (add st name p now))) \<le> L"
proof -
  have "distinct (map sid (records (add st name p now)))"
    using store_wf_add[OF assms] by (simp add: store_wf_def)
  then have "length (records (trim L (add st name p now))) \<le> L"
    by (simp add: records_trim_length)
  then show ?thesis by (simp add: add_def)
qed

lemma saveState_example:
  "records (savedStates (run_saves \<lparr>savedStates = empty_store, savedParking = empty_store\<rparr>
        [SaveState (10::nat) ''a'' (Some 2) 100, SaveParking (7::nat) ''p'' None 150,
         SaveState 11 ''b'' (Some 2) 200, SaveState 12 ''c'' (Some 2) 300]))
   = [\<lparr>sid = 2, sname = ''b'', payload = 11, timestamp = 200\<rparr>,
      \<lparr>sid = 3, sname = ''c'', payload = 12, timestamp = 300\<rparr>]"
  by (simp add: run_saves_def saveState_def saveParking_def add_def trim_def cursor_prev_def
      delete_def empty_store_def Let_def)

text \<open>
  Claim C1. For every sequence of calls of \<^verbatim>\<open>saveState\<close> and \<^verbatim>\<open>saveParking\<close>, with any
  limits (5 and 20 when omitted) and any clock readings, on a database whose primary keys are
  unique: after the \<open>i\<close>-th save completes, the collection it saved into holds at most
  \<open>L\<close> items, and they are the \<open>L\<close> most recent by timestamp among the items it held
  before together with the item just saved (\<open>save_post\<close>, \<open>saved_into\<close>); the item just
  saved is one of them whenever \<open>L\<close> is positive and no item is younger.
\<close>

theorem save_trim_keeps_most_recent:
  assumes "db_wf d0" and "i < length reqs"
  shows "save_post (run_saves d0 (take i reqs)) (reqs ! i) (run_saves d0 (take (Suc i) reqs))"
proof -
  have "run_saves d0 (take (Suc i) reqs) = apply_save (run_saves d0 (take i reqs)) (reqs ! i)"
    using assms(2) by (simp add: run_saves_def take_Suc_conv_app_nth)
  moreover have "db_wf (run_saves d0 (take i reqs))"
    using assms(1) by (rule db_wf_run_saves)
  ultimately show ?thesis
    by (simp add: apply_save_post)
qed

theorem save_trim_keeps_most_recent_witness:
  "db_wf \<lparr>savedStates = (empty_store :: nat objstore), savedParking = (empty_store :: nat objstore)\<rparr> \<and>
   3 < length [SaveState (10::nat) ''a'' (Some 2) 100, SaveParking (7::nat) ''p'' None 150,
               SaveState 11 ''b'' (Some 2) 200, SaveState 12 ''c'' (Some 2) 300] \<and>
   records (savedStates
     (run_saves \<lparr>savedStates = empty_store, savedParking = empty_store\<rparr>
        (take 3 [SaveState (10::nat) ''a'' (Some 2) 100, SaveParking (7::nat) ''p'' None 150,
               SaveState 11 ''b'' (Some 2) 200, SaveState 12 ''c'' (Some 2) 300])))
     = [\<lparr>sid = 1, sname = ''a'', payload = 10, timestamp = 100\<rparr>,
        \<lparr>sid = 2, sname = ''b'', payload = 11, timestamp = 200\<rparr>] \<and>
   records (savedStates
     (run_saves \<lparr>savedStates = empty_store, savedParking = empty_store\<rparr>
        (take (Suc 3) [SaveState (10::nat) ''a'' (Some 2) 100, SaveParking (7::nat) ''p'' None 150,
               SaveState 11 ''b'' (Some 2) 200, SaveState 12 ''c'' (Some 2) 300])))
     = [\<lparr>sid = 2, sname = ''b'', payload = 11, timestamp = 200\<rparr>,
        \<lparr>sid = 3, sname = ''c'', payload = 12, timestamp = 300\<rparr>] \<and>
   save_post
     (run_saves \<lparr>savedStates = empty_store, savedParking = empty_store\<rparr>
        (take 3 [SaveState (10::nat) ''a'' (Some 2) 100, SaveParking (7::nat) ''p'' None 150,
               SaveState 11 ''b'' (Some 2) 200, SaveState 12 ''c'' (Some 2) 300]))
     ([SaveState (10::nat) ''a'' (Some 2) 100, SaveParking (7::nat) ''p'' None 150,
               SaveState 11 ''b'' (Some 2) 200, SaveState 12 ''c'' (Some 2) 300] ! 3)
     (run_saves \<lparr>savedStates = empty_store, savedParking = empty_store\<rparr>
        (take (Suc 3) [SaveState (10::nat) ''a'' (Some 2) 100, SaveParking (7::nat) ''p'' None 150,
               SaveState 11 ''b'' (Some 2) 200, SaveState 12 ''c'' (Some 2) 300]))"
proof -
  let ?d0 = "\<lparr>savedStates = (empty_store :: nat objstore), savedParking = (empty_store :: nat objstore)\<rparr>"
  let ?reqs = "[SaveState (10::nat) ''a'' (Some 2) 100, SaveParking (7::nat) ''p'' None 150,
               SaveState 11 ''b'' (Some 2) 200, SaveState 12 ''c'' (Some 2) 300]"
  have wf: "db_wf ?d0"
    by (simp add: db_wf_def store_wf_def empty_store_def)
  have len: "3 < length ?reqs"
    by simp
  have pre: "records (savedStates (run_saves ?d0 (take 3 ?reqs)))
     = [\<lparr>sid = 1, sname = ''a'', payload = 10, timestamp = 100\<rparr>,
        \<lparr>sid = 2, sname = ''b'', payload = 11, timestamp = 200\<rparr>]"
    by (simp add: run_saves_def saveState_def saveParking_def add_def trim_def cursor_prev_def
      delete_def empty_store_def Let_def)
  have post: "records (savedStates (run_saves ?d0 (take (Suc 3) ?reqs)))
     = [\<lparr>sid = 2, sname = ''b'', payload = 11, timestamp = 200\<rparr>,
        \<lparr>sid = 3, sname = ''c'', payload = 12, timestamp = 300\<rparr>]"
    by (simp add: run_saves_def saveState_def saveParking_def add_def trim_def cursor_prev_def
      delete_def empty_store_def Let_def)
  show ?thesis
    by (intro conjI wf len pre post save_trim_keeps_most_recent[OF wf len])
qed

text \<open>
  Claim C2, as stated: the insert and the trim are one transaction, so no reader sees the
  collection over its limit. The code runs two transactions, and after the first commits a
  collection that held \<open>L\<close> items holds \<open>L + 1\<close>.
\<close>

theorem save_is_two_transactions_counterexample:
  "\<not> (length (saveState_transactions (0::nat) ''n'' (Some 1) 20) = 1 \<and>
      list_all (\<lambda>st. length (records st) \<le> 1)
        (commits (saveState_transactions (0::nat) ''n'' (Some 1) 20)
           \<lparr>records = [\<lparr>sid = 1, sname = ''m'', payload = 0, timestamp = 10\<rparr>], keygen = 2\<rparr>))"
  by (simp add: saveState_transactions_def add_def)

text \<open>
  Claim C2, amended. A save (\<^verbatim>\<open>saveState\<close> or \<^verbatim>\<open>saveParking\<close>) runs two storage
  transactions, the insert and then the trim. Readers between the two commits (and after a
  failure of the second) see exactly one item more than before, so \<open>L + 1\<close> items when
  the collection held \<open>L\<close>; once the second transaction commits the collection is within
  its limit again.
\<close>

theorem save_is_two_transactions:
  assumes "store_wf st"
  shows "(\<exists>st1 st2. commits (saveState_transactions state name limit now) st = [st1, st2] \<and>
           st1 = add st name state now \<and>
           length (records st1) = length (records st) + 1 \<and>
           st2 = saveState state name limit now st \<and>
           length (records st2) \<le> (case limit of None \<Rightarrow> 5 | Some n \<Rightarrow> n)) \<and>
         (\<exists>st1 st2. commits (saveParking_transactions state name limit now) st = [st1, st2] \<and>
           st1 = add st name state now \<and>
           length (records st1) = length (records st) + 1 \<and>
           st2 = saveParking state name limit now st \<and>
           length (records st2) \<le> (case limit of None \<Rightarrow> 20 | Some n \<Rightarrow> n))"
  using add_then_trim_commits[OF assms, of name state now]
  by (simp add: saveState_transactions_def saveParking_transactions_def saveState_def
      saveParking_def Let_def)

theorem save_is_two_transactions_witness:
  "store_wf \<lparr>records = [\<lparr>sid = 1, sname = ''m'', payload = (0::nat), timestamp = 10\<rparr>], keygen = 2\<rparr> \<and>
   (\<exists>st1 st2.
      commits (saveState_transactions (0::nat) ''n'' (Some 1) 20)
        \<lparr>records = [\<lparr>sid = 1, sname = ''m'', payload = 0, timestamp = 10\<rparr>], keygen = 2\<rparr> = [st1, st2] \<and>
      length (records st1) = 2 \<and> length (records st2) \<le> 1)"
proof -
  let ?st = "\<lparr>records = [\<lparr>sid = 1, sname = ''m'', payload = (0::nat), timestamp = 10\<rparr>], keygen = 2\<rparr>"
  have wf: "store_wf ?st" by (simp add: store_wf_def)
  from save_is_two_transactions[OF wf, of 0 "''n''" "Some 1" 20, THEN conjunct1]
  have "\<exists>st1 st2.
      commits (saveState_transactions (0::nat) ''n'' (Some 1) 20) ?st = [st1, st2] \<and>
      length (records st1) = 2 \<and> length (records st2) \<le> 1"
    by auto
  with wf show ?thesis by blast
qed

section \<open>Rounding and the derived statistics\<close>






lemma toFixed_unit:
  assumes "0 \<le> x" "x \<le> 1"
  shows "0 \<le> toFixed x k \<and> toFixed x k \<le> 1"
proof -
  have p: "(0::rat) < 10 ^ k" by simp
  have small: "\<not> \<bar>x\<bar> \<ge> 10 ^ 21" using assms by simp
  have t: "toFixed x k = of_int \<lfloor>x * 10 ^ k + 1 / 2\<rfloor> / 10 ^ k"
    using assms small by (simp add: toFixed_def)
  have "0 \<le> x * 10 ^ k + 1 / 2" using assms by simp
  then have lo: "0 \<le> \<lfloor>x * 10 ^ k + 1 / 2\<rfloor>" by simp
  have "x * 10 ^ k \<le> 1 * 10 ^ k" using assms p by (intro mult_right_mono) simp_all
  then have "x * 10 ^ k + 1 / 2 < 10 ^ k + 1" by linarith
  then have "x * 10 ^ k + 1 / 2 < of_int (10 ^ k + 1)" by simp
  then have "\<lfloor>x * 10 ^ k + 1 / 2\<rfloor> < 10 ^ k + 1" by (simp only: floor_less_iff)
  then have "\<lfloor>x * 10 ^ k + 1 / 2\<rfloor> \<le> 10 ^ k" by simp
  then have "(of_int \<lfloor>x * 10 ^ k + 1 / 2\<rfloor> :: rat) \<le> of_int (10 ^ k)" by (simp only: of_int_le_iff)
  then have hi: "(of_int \<lfloor>x * 10 ^ k + 1 / 2\<rfloor> :: rat) \<le> 10 ^ k" by simp
  show ?thesis using lo hi p by (simp add: t)
qed

lemma floor_half: "\<lfloor>1 / 2 :: rat\<rfloor> = 0"
  by (simp add: floor_eq_iff)

lemma toFixed_zero: "toFixed 0 k = 0"
  by (simp add: toFixed_def floor_half)


lemma in_aggregatedBatting:
  "r \<in> set (aggregatedBatting rows) \<Longrightarrow> \<exists>s. r = batting_derive s"
  by (auto simp: aggregatedBatting_def)


lemma batting_derive_fields:
  "b_ab (batting_derive s) = b_ab s"
  "b_h (batting_derive s) = b_h s"
  "avg (batting_derive s) = toFixed (safeDiv (b_h s) (b_ab s)) 3"
  "obp (batting_derive s) =
     toFixed (safeDiv (b_h s + b_bb s + b_hbp s) (b_ab s + b_bb s + b_hbp s + b_sf s)) 3"
  "slg (batting_derive s) =
     toFixed (safeDiv (b_h s - b_doubles s - b_triples s - b_hr s + b_doubles s * 2
                       + b_triples s * 3 + b_hr s * 4) (b_ab s)) 3"
  "ops (batting_derive s) =
     toFixed (safeDiv (b_h s + b_bb s + b_hbp s) (b_ab s + b_bb s + b_hbp s + b_sf s)
              + safeDiv (b_h s - b_doubles s - b_triples s - b_hr s + b_doubles s * 2
                       + b_triples s * 3 + b_hr s * 4) (b_ab s)) 3"
  by (simp_all add: batting_derive_def Let_def batting_totals.extend_def batting_row.fields_def)








text \<open>
  Claim C5, as stated: \<open>avg\<close> lies in \<open>[0, 1]\<close> whenever the accumulated at-bats are
  positive. The aggregator does not compare hits with at-bats: a game log with two hits in
  one at-bat gives \<open>avg = 2\<close>.
\<close>

theorem avg_in_unit_interval_counterexample:
  "0 < b_ab (hd (aggregatedBatting [Map.empty(col_name \<mapsto> Str ''a'', col_ab \<mapsto> Num 1, col_hits \<mapsto> Num 2)])) \<and>
   \<not> avg (hd (aggregatedBatting [Map.empty(col_name \<mapsto> Str ''a'', col_ab \<mapsto> Num 1, col_hits \<mapsto> Num 2)])) \<le> 1"
  by code_simp

text \<open>
  Claim C5, amended. For every aggregated batting row, \<open>avg\<close> lies in \<open>[0, 1]\<close> whenever
  the accumulated at-bats are positive and the accumulated hits lie between \<open>0\<close> and the
  accumulated at-bats, and \<open>avg\<close> equals \<open>0\<close> whenever the accumulated at-bats are \<open>0\<close>.
\<close>

theorem avg_in_unit_interval:
  assumes "r \<in> set (aggregatedBatting rows)"
  shows "(0 < b_ab r \<and> 0 \<le> b_h r \<and> b_h r \<le> b_ab r \<longrightarrow> 0 \<le> avg r \<and> avg r \<le> 1) \<and>
         (b_ab r = 0 \<longrightarrow> avg r = 0)"
proof -
  obtain s where r: "r = batting_derive s" using in_aggregatedBatting[OF assms] by blast
  have z: "avg r = 0" if "b_ab r = 0"
    using that by (simp add: r batting_derive_fields safeDiv_def toFixed_zero)
  have u: "0 \<le> avg r \<and> avg r \<le> 1" if "0 < b_ab r" "0 \<le> b_h r" "b_h r \<le> b_ab r"
  proof -
    have "0 \<le> b_h s / b_ab s" "b_h s / b_ab s \<le> 1"
      using that by (simp_all add: r batting_derive_fields)
    then show ?thesis
      using that(1) toFixed_unit[of "b_h s / b_ab s" 3]
      by (simp add: r batting_derive_fields safeDiv_def)
  qed
  show ?thesis using z u by blast
qed

theorem avg_in_unit_interval_witness:
  "aggregatedBatting [Map.empty(col_name \<mapsto> Str ''a'', col_ab \<mapsto> Num 4, col_hits \<mapsto> Num 2),
                      Map.empty(col_name \<mapsto> Str ''b'', col_bb \<mapsto> Num 1)] ! 0
     \<in> set (aggregatedBatting [Map.empty(col_name \<mapsto> Str ''a'', col_ab \<mapsto> Num 4, col_hits \<mapsto> Num 2),
                      Map.empty(col_name \<mapsto> Str ''b'', col_bb \<mapsto> Num 1)]) \<and>
   aggregatedBatting [Map.empty(col_name \<mapsto> Str ''a'', col_ab \<mapsto> Num 4, col_hits \<mapsto> Num 2),
                      Map.empty(col_name \<mapsto> Str ''b'', col_bb \<mapsto> Num 1)] ! 1
     \<in> set (aggregatedBatting [Map.empty(col_name \<mapsto> Str ''a'', col_ab \<mapsto> Num 4, col_hits \<mapsto> Num 2),
                      Map.empty(col_name \<mapsto> Str ''b'', col_bb \<mapsto> Num 1)]) \<and>
   0 < b_ab (aggregatedBatting [Map.empty(col_name \<mapsto> Str ''a'', col_ab \<mapsto> Num 4, col_hits \<mapsto> Num 2),
                      Map.empty(col_name \<mapsto> Str ''b'', col_bb \<mapsto> Num 1)] ! 0) \<and>
   0 \<le> b_h (aggregatedBatting [Map.empty(col_name \<mapsto> Str ''a'', col_ab \<mapsto> Num 4, col_hits \<mapsto> Num 2),
                      Map.empty(col_name \<mapsto> Str ''b'', col_bb \<mapsto> Num 1)] ! 0) \<and>
   b_h (aggregatedBatting [Map.empty(col_name \<mapsto> Str ''a'', col_ab \<mapsto> Num 4, col_hits \<mapsto> Num 2),
                      Map.empty(col_name \<mapsto> Str ''b'', col_bb \<mapsto> Num 1)] ! 0)
     \<le> b_ab (aggregatedBatting [Map.empty(col_name \<mapsto> Str ''a'', col_ab \<mapsto> Num 4, col_hits \<mapsto> Num 2),
                      Map.empty(col_name \<mapsto> Str ''b'', col_bb \<mapsto> Num 1)] ! 0) \<and>
   0 \<le> avg (aggregatedBatting [Map.empty(col_name \<mapsto> Str ''a'', col_ab \<mapsto> Num 4, col_hits \<mapsto> Num 2),
                      Map.empty(col_name \<mapsto> Str ''b'', col_bb \<mapsto> Num 1)] ! 0) \<and>
   avg (aggregatedBatting [Map.empty(col_name \<mapsto> Str ''a'', col_ab \<mapsto> Num 4, col_hits \<mapsto> Num 2),
                      Map.empty(col_name \<mapsto> Str ''b'', col_bb \<mapsto> Num 1)] ! 0) \<le> 1 \<and>
   b_ab (aggregatedBatting [Map.empty(col_name \<mapsto> Str ''a'', col_ab \<mapsto> Num 4, col_hits \<mapsto> Num 2),
                      Map.empty(col_name \<mapsto> Str ''b'', col_bb \<mapsto> Num 1)] ! 1) = 0 \<and>
   avg (aggregatedBatting [Map.empty(col_name \<mapsto> Str ''a'', col_ab \<mapsto> Num 4, col_hits \<mapsto> Num 2),
                      Map.empty(col_name \<mapsto> Str ''b'', col_bb \<mapsto> Num 1)] ! 1) = 0"
proof -
  let ?X = "aggregatedBatting [Map.empty(col_name \<mapsto> Str ''a'', col_ab \<mapsto> Num 4, col_hits \<mapsto> Num 2),
                      Map.empty(col_name \<mapsto> Str ''b'', col_bb \<mapsto> Num 1)]"
  have m0: "?X ! 0 \<in> set ?X" by code_simp
  have m1: "?X ! 1 \<in> set ?X" by code_simp
  have h0: "0 < b_ab (?X ! 0)" "0 \<le> b_h (?X ! 0)" "b_h (?X ! 0) \<le> b_ab (?X ! 0)" by code_simp+
  have h1: "b_ab (?X ! 1) = 0" by code_simp
  from avg_in_unit_interval[OF m0] h0 have c0: "0 \<le> avg (?X ! 0)" "avg (?X ! 0) \<le> 1" by blast+
  from avg_in_unit_interval[OF m1] h1 have c1: "avg (?X ! 1) = 0" by blast
  show ?thesis using m0 m1 h0 h1 c0 c1 by blast
qed


section \<open>Dates and the record filter\<close>

lemma parseDate_by_parts:
  "parseDate tza dp dateStr =
     (case dateStr of
        None \<Rightarrow> 0
      | Some s \<Rightarrow>
          if s = [] then 0
          else (case date_parts s of
                  Some (y, m, d) \<Rightarrow>
                    (case newDate tza y (m - 1) d of
                       Some t \<Rightarrow> t
                     | None \<Rightarrow> (case dp s of Some t \<Rightarrow> t | None \<Rightarrow> 0))
                | None \<Rightarrow> (case dp s of Some t \<Rightarrow> t | None \<Rightarrow> 0)))"
proof (cases dateStr)
  case None
  then show ?thesis by (simp add: parseDate_def)
next
  case (Some s)
  let ?ps = "split_on (\<lambda>c. c = CHR ''-'' \<or> c = CHR ''/'') s"
  show ?thesis
  proof (cases "length ?ps = 3")
    case True
    then obtain a b c where ps: "?ps = [a, b, c]"
      by (cases ?ps; cases "tl ?ps"; cases "tl (tl ?ps)") auto
    show ?thesis
      by (simp add: Some parseDate_def date_parts_def ps Let_def split: option.splits)
  next
    case False
    then have "date_parts s = None"
      by (auto simp: date_parts_def split: list.splits)
    then show ?thesis using False by (simp add: Some parseDate_def Let_def)
  qed
qed

lemma tza_bounds: "- 2147483648 \<le> sint (tza :: 32 word) \<and> sint tza < 2147483648"
  using sint_ge[of tza] sint_lt[of tza] by simp

lemma newDate_in_range:
  assumes "\<bar>makeDay y mi d\<bar> \<le> 99999000" and "y < 0 \<or> 99 < y"
  shows "newDate tza y mi d = Some (makeDay y mi d * msPerDay - sint tza)"
proof -
  have "\<bar>makeDay y mi d * msPerDay\<bar> \<le> 99999000 * 86400000"
    using assms(1) by (simp add: msPerDay_def abs_mult)
  then have "\<bar>makeDay y mi d * msPerDay - sint tza\<bar> \<le> maxTime"
    using tza_bounds[of tza] unfolding maxTime_def by linarith
  then show ?thesis using assms(2) by (auto simp: newDate_def timeClip_def Let_def)
qed

lemma newDate_midnight: "newDate tza y mi d = Some t \<Longrightarrow> (t + sint tza) mod msPerDay = 0"
  by (auto simp: newDate_def timeClip_def Let_def split: if_splits)

lemma newDate_valid:
  assumes "valid_calendar_date y m d" and "y < 0 \<or> 99 < y" and "newDate tza y (m - 1) d = Some t"
  shows "t = local_midnight (sint tza) y m d"
proof -
  have "0 \<le> m - 1" "m - 1 < 12" using assms(1) by (simp_all add: valid_calendar_date_def)
  then have "(m - 1) div 12 = 0" "(m - 1) mod 12 = m - 1" by simp_all
  then show ?thesis using assms(2,3)
    by (auto simp: newDate_def makeDay_def local_midnight_def timeClip_def Let_def split: if_splits)
qed

text \<open>
  The normalizer by cases. It is a total function with no error result. An empty or undefined
  input gives the epoch; three parts that each begin with an integer give the date the
  \<^verbatim>\<open>Date\<close> constructor builds from them when that date is valid, always a local midnight,
  and for a valid calendar date with a year outside 0 to 99 that very date; every other input
  gives the result of the generic parse, and the epoch when that fails.
\<close>

lemma parseDate_cases:
  "(dateStr = None \<or> dateStr = Some [] \<longrightarrow> parseDate tza dp dateStr = 0) \<and>
   (\<forall>s y m d t. dateStr = Some s \<and> s \<noteq> [] \<and> date_parts s = Some (y, m, d) \<and>
        newDate tza y (m - 1) d = Some t \<longrightarrow>
      parseDate tza dp dateStr = t \<and>
      (parseDate tza dp dateStr + sint tza) mod msPerDay = 0 \<and>
      (valid_calendar_date y m d \<and> (y < 0 \<or> 99 < y) \<longrightarrow>
         parseDate tza dp dateStr = local_midnight (sint tza) y m d)) \<and>
   (\<forall>s y m d. dateStr = Some s \<and> s \<noteq> [] \<and>
        (date_parts s = None \<or> date_parts s = Some (y, m, d) \<and> newDate tza y (m - 1) d = None) \<longrightarrow>
      parseDate tza dp dateStr = (case dp s of Some t \<Rightarrow> t | None \<Rightarrow> 0))"
  using newDate_valid[of _ _ _ tza] newDate_midnight[of tza]
  by (auto simp: parseDate_by_parts)

lemma parseDate_out_of_range_example:
  "parseDate 0 (\<lambda>s. None) (Some ''275760-09-14'') = 0 \<and>
   parseDate 0 (\<lambda>s. None) (Some ''275760-09-13'') = 8640000000000000"
  by code_simp

lemma april_2024_parts:
  "list_all (\<lambda>d. date_parts (april_2024 d) = Some (2024, 4, int d)) [1..<31]"
  by code_simp

lemma april_2024_parts_at:
  assumes "1 \<le> d" "d \<le> 30"
  shows "date_parts (april_2024 d) = Some (2024, 4, int d)"
proof -
  have "d \<in> set [1..<31]" using assms by simp
  then show ?thesis using april_2024_parts unfolding list_all_iff by blast
qed

lemma april_2024_nonempty: "april_2024 d \<noteq> []"
  by (simp add: april_2024_def)

lemma makeDay_april_2024: "makeDay 2024 3 d = 19813 + d"
  by (simp add: makeDay_def dayFromYear_def monthStart_def inLeapYear_def Let_def)

lemma parseDate_april:
  assumes "1 \<le> d" "d \<le> 30"
  shows "parseDate tza dp (Some (april_2024 d)) = (19813 + int d) * msPerDay - sint tza"
proof -
  have "newDate tza 2024 3 (int d) = Some (makeDay 2024 3 (int d) * msPerDay - sint tza)"
    using assms by (intro newDate_in_range) (simp_all add: makeDay_april_2024)
  then show ?thesis
    by (simp add: parseDate_by_parts april_2024_nonempty april_2024_parts_at[OF assms]
        makeDay_april_2024)
qed

lemma parseDate_april_15:
  "parseDate tza dp (Some ''2024-04-15'') = (19813 + 15) * msPerDay - sint tza"
proof -
  have "april_2024 15 = ''2024-04-15''" by (simp add: april_2024_def)
  then show ?thesis using parseDate_april[of 15 tza dp] by simp
qed

lemma keep_row_iff:
  "keep_row tza dp f r \<longleftrightarrow>
     (startDate f = [] \<or>
        parseDate tza dp (Some (startDate f)) \<le> parseDate tza dp (text_of (r col_date))) \<and>
     (endDate f = [] \<or>
        parseDate tza dp (text_of (r col_date)) < parseDate tza dp (Some (endDate f)) + msPerDay) \<and>
     (teamKeyword f = [] \<or>
        js_includes (toLowerCase (text_or_empty (r col_away))) (toLowerCase (teamKeyword f)) \<or>
        js_includes (toLowerCase (text_or_empty (r col_home))) (toLowerCase (teamKeyword f))) \<and>
     (category f = ''all'' \<or> r col_title = Some (Str (category f)))"
  by (auto simp: keep_row_def Let_def)

lemma filter_april_example:
  "map (\<lambda>r. r col_date)
     (filterData 32400000 (\<lambda>s. None)
        \<lparr>startDate = [], endDate = ''2024-04-15'', teamKeyword = [], category = ''all''\<rparr>
        (map (\<lambda>d. Map.empty(col_date \<mapsto> Str (april_2024 d))) [1..<31]))
   = map (\<lambda>d. Some (Str (april_2024 d))) [1..<16]"
  by code_simp


text \<open>
  Claim C7 lets only three numeric parts that form a valid calendar date be returned as that
  date; any other input is to go to the generic parse and, when that fails, to the epoch. The
  normalizer says it checks the date it built, but its test only asks whether the \<^verbatim>\<open>Date\<close>
  is valid, and the constructor rolls days and months over instead of rejecting them:
  \<^verbatim>\<open>2024-02-31\<close> has three numeric parts, is no calendar date, and comes back as local
  midnight of the second of March 2024, whatever the generic parse would say.
\<close>

theorem parseDate_accepts_invalid_calendar_date:
  "date_parts ''2024-02-31'' = Some (2024, 2, 31) \<and>
   \<not> valid_calendar_date 2024 2 31 \<and>
   parseDate tza dp (Some ''2024-02-31'') = local_midnight (sint tza) 2024 3 2"
proof -
  have p: "date_parts ''2024-02-31'' = Some (2024, 2, 31)" by code_simp
  have v: "\<not> valid_calendar_date 2024 2 31" by code_simp
  have m: "makeDay 2024 1 31 = 19784"
    by (simp add: makeDay_def dayFromYear_def monthStart_def inLeapYear_def Let_def)
  have "newDate tza 2024 1 31 = Some (makeDay 2024 1 31 * msPerDay - sint tza)"
    by (intro newDate_in_range) (simp_all add: m)
  then have "parseDate tza dp (Some ''2024-02-31'') = 19784 * msPerDay - sint tza"
    by (simp add: parseDate_by_parts p m)
  moreover have "local_midnight (sint tza) 2024 3 2 = 19784 * msPerDay - sint tza"
    by (simp add: local_midnight_def dayFromYear_def monthStart_def inLeapYear_def)
  ultimately show ?thesis using p v by simp
qed

text \<open>
  Claim C6. For every row and every filter state with an end date: the row is kept exactly
  when its normalized date is strictly less than the normalized end date plus one day and it
  passes the other constraints that are set (start date, team keyword, category); so with
  the end date as the only constraint the filter keeps exactly the rows below the end date
  plus one day. With the end date \<^verbatim>\<open>2024-04-15\<close> alone, a row dated on day \<open>d\<close> of April
  2024 is kept exactly when \<open>d \<le> 15\<close>.
\<close>

theorem filter_end_date_inclusive:
  assumes "endDate f \<noteq> []"
  shows "(keep_row tza dp f r \<longleftrightarrow>
            parseDate tza dp (text_of (r col_date)) < parseDate tza dp (Some (endDate f)) + msPerDay \<and>
            (startDate f = [] \<or>
               parseDate tza dp (Some (startDate f)) \<le> parseDate tza dp (text_of (r col_date))) \<and>
            (teamKeyword f = [] \<or>
               js_includes (toLowerCase (text_or_empty (r col_away))) (toLowerCase (teamKeyword f)) \<or>
               js_includes (toLowerCase (text_or_empty (r col_home))) (toLowerCase (teamKeyword f))) \<and>
            (category f = ''all'' \<or> r col_title = Some (Str (category f)))) \<and>
         (startDate f = [] \<and> teamKeyword f = [] \<and> category f = ''all'' \<longrightarrow>
            filterData tza dp f data =
            filter (\<lambda>r. parseDate tza dp (text_of (r col_date))
                          < parseDate tza dp (Some (endDate f)) + msPerDay) data) \<and>
         (startDate f = [] \<and> teamKeyword f = [] \<and> category f = ''all'' \<and>
          endDate f = ''2024-04-15'' \<and> 1 \<le> d \<and> d \<le> 30 \<and> r col_date = Some (Str (april_2024 d)) \<longrightarrow>
            (keep_row tza dp f r \<longleftrightarrow> d \<le> 15))"
proof -
  have 1: "keep_row tza dp f r \<longleftrightarrow>
            parseDate tza dp (text_of (r col_date)) < parseDate tza dp (Some (endDate f)) + msPerDay \<and>
            (startDate f = [] \<or>
               parseDate tza dp (Some (startDate f)) \<le> parseDate tza dp (text_of (r col_date))) \<and>
            (teamKeyword f = [] \<or>
               js_includes (toLowerCase (text_or_empty (r col_away))) (toLowerCase (teamKeyword f)) \<or>
               js_includes (toLowerCase (text_or_empty (r col_home))) (toLowerCase (teamKeyword f))) \<and>
            (category f = ''all'' \<or> r col_title = Some (Str (category f)))"
    using assms by (auto simp: keep_row_iff)
  have 2: "filterData tza dp f data =
            filter (\<lambda>r. parseDate tza dp (text_of (r col_date))
                          < parseDate tza dp (Some (endDate f)) + msPerDay) data"
    if "startDate f = []" "teamKeyword f = []" "category f = ''all''"
  proof -
    have "keep_row tza dp f =
            (\<lambda>r. parseDate tza dp (text_of (r col_date))
                          < parseDate tza dp (Some (endDate f)) + msPerDay)"
      using that assms by (intro ext) (simp add: keep_row_iff)
    then show ?thesis by (simp add: filterData_def)
  qed
  have 3: "keep_row tza dp f r \<longleftrightarrow> d \<le> 15"
    if "startDate f = []" "teamKeyword f = []" "category f = ''all''"
       "endDate f = ''2024-04-15''" "1 \<le> d" "d \<le> 30" "r col_date = Some (Str (april_2024 d))"
  proof -
    have "keep_row tza dp f r \<longleftrightarrow>
            parseDate tza dp (Some (april_2024 d)) < parseDate tza dp (Some ''2024-04-15'') + msPerDay"
      using that by (simp add: keep_row_iff text_of_def)
    also have "\<dots> \<longleftrightarrow> (19813 + int d) * msPerDay - sint tza
                        < (19813 + 15) * msPerDay - sint tza + msPerDay"
      by (simp only: parseDate_april[OF that(5,6)] parseDate_april_15)
    also have "\<dots> \<longleftrightarrow> d \<le> 15"
      by (auto simp: msPerDay_def)
    finally show ?thesis .
  qed
  show ?thesis using 1 2 3 by blast
qed

theorem filter_end_date_inclusive_witness:
  "endDate \<lparr>startDate = [], endDate = ''2024-04-15'', teamKeyword = [], category = ''all''\<rparr> \<noteq> [] \<and>
   (1::nat) \<le> 15 \<and> (15::nat) \<le> 30 \<and>
   (Map.empty(col_date \<mapsto> Str (april_2024 15))) col_date = Some (Str (april_2024 15)) \<and>
   keep_row 32400000 (\<lambda>s. None)
     \<lparr>startDate = [], endDate = ''2024-04-15'', teamKeyword = [], category = ''all''\<rparr>
     (Map.empty(col_date \<mapsto> Str (april_2024 15))) \<and>
   (1::nat) \<le> 16 \<and> (16::nat) \<le> 30 \<and>
   (Map.empty(col_date \<mapsto> Str (april_2024 16))) col_date = Some (Str (april_2024 16)) \<and>
   \<not> keep_row 32400000 (\<lambda>s. None)
     \<lparr>startDate = [], endDate = ''2024-04-15'', teamKeyword = [], category = ''all''\<rparr>
     (Map.empty(col_date \<mapsto> Str (april_2024 16)))"
proof -
  let ?f = "\<lparr>startDate = [], endDate = ''2024-04-15'', teamKeyword = [], category = ''all''\<rparr>"
  have e: "endDate ?f \<noteq> []" by simp
  have k15: "keep_row 32400000 (\<lambda>s. None) ?f (Map.empty(col_date \<mapsto> Str (april_2024 15)))"
    using filter_end_date_inclusive[OF e, where tza = 32400000 and dp = "\<lambda>s. None"
        and r = "Map.empty(col_date \<mapsto> Str (april_2024 15))" and d = 15 and data = "[]",
        THEN conjunct2, THEN conjunct2]
    by simp
  have k16: "\<not> keep_row 32400000 (\<lambda>s. None) ?f (Map.empty(col_date \<mapsto> Str (april_2024 16)))"
    using filter_end_date_inclusive[OF e, where tza = 32400000 and dp = "\<lambda>s. None"
        and r = "Map.empty(col_date \<mapsto> Str (april_2024 16))" and d = 16 and data = "[]",
        THEN conjunct2, THEN conjunct2]
    by simp
  show ?thesis using e k15 k16 by simp
qed

section \<open>Ranking by a metric\<close>







lemma ranking_example:
  "map (\<lambda>d. (rk_name d, rk_value d))
     (rankingData (aggregatedBatting sample_batting) (aggregatedPitching sample_pitching) ''era'' 1)
   = [(Some (Str ''b''), Some (233 / 100)), (Some (Str ''a''), Some (7 / 2))] \<and>
   map (\<lambda>d. (rk_name d, rk_value d))
     (rankingData (aggregatedBatting sample_batting) (aggregatedPitching sample_pitching) ''avg'' 2)
   = [(Some (Str ''b''), Some (1 / 2)), (Some (Str ''a''), Some (1 / 4))]"
  by code_simp





section \<open>Importing files\<close>

lemma parseCSV_empty: "parseCSV toNumber [] = []"
  by (simp add: parseCSV_def trim_str_def trimStart_def trimEnd_def)

lemma import_files_no_rows_raises:
  assumes "parseCSV toNumber text = []"
    and "\<not> js_includes name ''_b.csv''" and "\<not> js_includes name ''_p.csv''"
  shows "import_files toNumber ((name, text) # files) newBatting newPitching importedCount
           = Inl TypeError"
  using assms by (simp add: key_in_first_def)

lemma import_files_skips_unclassified:
  assumes "parseCSV toNumber text = r # rs"
    and "\<not> js_includes name ''_b.csv''" and "\<not> js_includes name ''_p.csv''"
    and "r col_pa = None" and "r col_innings = None" and "r col_pitches = None"
  shows "import_files toNumber ((name, text) # files) newBatting newPitching importedCount
           = import_files toNumber files newBatting newPitching importedCount"
  using assms by (simp add: key_in_first_def)

text \<open>
  Claim C8 says that a file matching neither the batting nor the pitching signature is
  dropped silently, without an error. That holds for a file with at least one data row
  (\<open>import_files_skips_unclassified\<close>). For a file without data rows it does not: at the
  empty file \<^verbatim>\<open>notes.txt\<close> the second test evaluates \<^verbatim>\<open>in\<close> on \<^verbatim>\<open>undefined\<close>, the handler
  ends with a \<^verbatim>\<open>TypeError\<close>, and the state keeps the message \<open>Reading\<close>: no data set is
  stored and no import count is shown.
\<close>

theorem upload_empty_unclassified_file_raises:
  "handleFileUpload toNumber now [(''notes.txt'', [])] st
     = Inl (TypeError, st\<lparr>importStatus := Reading\<rparr>)"
proof -
  have "\<not> js_includes ''notes.txt'' ''_b.csv''" "\<not> js_includes ''notes.txt'' ''_p.csv''"
    by simp_all
  then have "import_files toNumber [(''notes.txt'', [])] (battingData st) (pitchingData st) 0
               = Inl TypeError"
    using parseCSV_empty by (rule_tac import_files_no_rows_raises) simp_all
  then show ?thesis by (simp add: handleFileUpload_def)
qed

end
